theory Spec2Isabelle
  imports Main
begin

section \<open>The WebRTC player widget (src/components/ha-web-rtc-player.ts)\<close>

text \<open>
  The widget \<^verbatim>\<open>HaWebRtcPlayer\<close> sequences calls to the browser's peer connection API
  and to the backend. Its own fields are a record; the browser objects it creates and
  mutates (peer connections, media streams, tracks, the video element) live in an
  explicit store and are named by references, because the widget, a transceiver and a
  listener closure may hold the same object. What the outside answers to each awaited
  call (the backend's replies, the browser's promise results and events) is an input
  record, so that every rejected promise is a branch of the model. The functions of
  \<^verbatim>\<open>../data/camera\<close>, \<^verbatim>\<open>../data/rtsp_to_webrtc\<close> and
  \<^verbatim>\<open>../common/config/is_component_loaded\<close> are known by their calls only: what they
  resolve or reject with is part of that input. A call of an \<^verbatim>\<open>async\<close> function is one
  run from its first statement to its end; two runs are not interleaved.
\<close>

subsection \<open>JavaScript values\<close>

text \<open>A thrown or rejected value: only its \<^verbatim>\<open>message\<close> is read by the widget.\<close>

datatype js_error = JsError (name: string) (message: string)

definition TypeError :: "string \<Rightarrow> js_error" where
  "TypeError msg = JsError ''TypeError'' msg"

text \<open>How a call of an \<^verbatim>\<open>async\<close> function ends: its promise resolves, rejects, or
  is never settled.\<close>

datatype outcome = Resolved | Rejected js_error | Pending

text \<open>JavaScript truthiness of an optional string: \<^verbatim>\<open>undefined\<close> and \<^verbatim>\<open>""\<close> are falsy.\<close>

fun truthy :: "string option \<Rightarrow> bool" where
  "truthy None = False"
| "truthy (Some str) = (str \<noteq> [])"

subsection \<open>Browser objects\<close>

type_synonym pc_ref = nat
type_synonym track_ref = nat
type_synonym stream_ref = nat

record ice_server =
  urls :: "string list"

text \<open>\<^verbatim>\<open>RTCConfiguration\<close>; the object \<^verbatim>\<open>{}\<close> has no \<^verbatim>\<open>iceServers\<close> member.\<close>

record rtc_configuration =
  iceServers :: "ice_server list option"

definition empty_configuration :: rtc_configuration where
  "empty_configuration = \<lparr>iceServers = None\<rparr>"

datatype direction = sendrecv | sendonly | recvonly | inactive

text \<open>The first argument of \<^verbatim>\<open>addTransceiver\<close>: a track object, a kind string, or
  \<^verbatim>\<open>undefined\<close> (what a field that was never assigned holds).\<close>

datatype track_or_kind = Track track_ref | Kind string | Undefined

record transceiver =
  seed :: track_or_kind
  dir :: direction

record track_obj =
  t_kind :: string
  t_enabled :: bool
  t_stopped :: bool

text \<open>A peer connection. \<open>pc_track_listener\<close> is the \<^verbatim>\<open>track\<close> listener the widget
  registers: a closure over the remote stream it fills.\<close>

record pc_obj =
  pc_configuration :: rtc_configuration
  pc_data_channels :: "string list"
  pc_transceivers :: "transceiver list"
  pc_local_description :: "string option"
  pc_remote_description :: "string option"
  pc_icecandidate_listener :: bool
  pc_track_listener :: "stream_ref option"
  pc_closed :: bool

record video_el =
  srcObject :: "stream_ref option"
  src :: "string option"
  loads :: nat

text \<open>What the outside can observe in order: requests to the backend, and the browser
  events on which the ordering claims rest. \<open>RemoteDescriptionApplied\<close> is the resolution
  of the promise of \<^verbatim>\<open>setRemoteDescription\<close>: from there on the \<^verbatim>\<open>await\<close> of line 209
  has returned and the application of the answer has succeeded for the widget.\<close>

datatype event =
    HandleWebRtcOffer string string
  | CloseWebRtcStream string
  | PeerConnectionClosed pc_ref
  | RemoteDescriptionApplied pc_ref
  | SrcObjectAssigned stream_ref
  | TrackStopped track_ref

text \<open>The store. A reference is an index; a new object is appended, so allocating never
  disturbs an existing reference. \<open>video\<close> is what the query \<^verbatim>\<open>#remote-stream\<close>
  finds: no element while the error alert is rendered or before the first render.\<close>

record world =
  pcs :: "pc_obj list"
  tracks :: "track_obj list"
  streams :: "track_ref list list"
  video :: "video_el option"
  events :: "event list"

text \<open>Reading through a reference, and updating the object behind it; a reference that
  names no object of the store reads as \<open>None\<close> and its update changes nothing (list
  update is the identity past the end).\<close>

definition lookup :: "'a list \<Rightarrow> nat \<Rightarrow> 'a option" where
  "lookup xs r = (if r < length xs then Some (xs ! r) else None)"

definition emit :: "event \<Rightarrow> world \<Rightarrow> world" where
  "emit ev w = w\<lparr>events := events w @ [ev]\<rparr>"

definition update_pc :: "pc_ref \<Rightarrow> (pc_obj \<Rightarrow> pc_obj) \<Rightarrow> world \<Rightarrow> world" where
  "update_pc pc f w = w\<lparr>pcs := (pcs w)[pc := f (pcs w ! pc)]\<rparr>"

definition update_track :: "track_ref \<Rightarrow> (track_obj \<Rightarrow> track_obj) \<Rightarrow> world \<Rightarrow> world" where
  "update_track t f w = w\<lparr>tracks := (tracks w)[t := f (tracks w ! t)]\<rparr>"

text \<open>\<^verbatim>\<open>new RTCPeerConnection(configuration)\<close>\<close>

definition newPeerConnection :: "rtc_configuration \<Rightarrow> world \<Rightarrow> pc_ref \<times> world" where
  "newPeerConnection conf w =
     (length (pcs w),
      w\<lparr>pcs := pcs w @
         [\<lparr>pc_configuration = conf, pc_data_channels = [], pc_transceivers = [],
           pc_local_description = None, pc_remote_description = None,
           pc_icecandidate_listener = False, pc_track_listener = None,
           pc_closed = False\<rparr>]\<rparr>)"

definition createDataChannel :: "pc_ref \<Rightarrow> string \<Rightarrow> world \<Rightarrow> world" where
  "createDataChannel pc label w =
     update_pc pc (\<lambda>p. p\<lparr>pc_data_channels := pc_data_channels p @ [label]\<rparr>) w"

text \<open>\<^verbatim>\<open>addTransceiver(trackOrKind, init)\<close>. The browser accepts a track or one of the
  kinds \<^verbatim>\<open>"audio"\<close> and \<^verbatim>\<open>"video"\<close>; \<^verbatim>\<open>undefined\<close> is converted to the string
  \<^verbatim>\<open>"undefined"\<close>, which is no legal kind, and the call throws a TypeError.\<close>

definition addTransceiver ::
  "pc_ref \<Rightarrow> track_or_kind \<Rightarrow> direction \<Rightarrow> world \<Rightarrow> js_error + world" where
  "addTransceiver pc tk d w =
     (case tk of
        Undefined \<Rightarrow> Inl (TypeError ''The provided value is not a valid track kind'')
      | Kind k \<Rightarrow>
          if k = ''audio'' \<or> k = ''video''
          then Inr (update_pc pc
                 (\<lambda>p. p\<lparr>pc_transceivers := pc_transceivers p @ [\<lparr>seed = tk, dir = d\<rparr>]\<rparr>) w)
          else Inl (TypeError ''The provided value is not a valid track kind'')
      | Track t \<Rightarrow>
          Inr (update_pc pc
                 (\<lambda>p. p\<lparr>pc_transceivers := pc_transceivers p @ [\<lparr>seed = tk, dir = d\<rparr>]\<rparr>) w))"

definition setLocalDescription :: "pc_ref \<Rightarrow> string \<Rightarrow> world \<Rightarrow> world" where
  "setLocalDescription pc sdp w = update_pc pc (\<lambda>p. p\<lparr>pc_local_description := Some sdp\<rparr>) w"

definition addIceCandidateListener :: "pc_ref \<Rightarrow> world \<Rightarrow> world" where
  "addIceCandidateListener pc w = update_pc pc (\<lambda>p. p\<lparr>pc_icecandidate_listener := True\<rparr>) w"

definition addTrackListener :: "pc_ref \<Rightarrow> stream_ref \<Rightarrow> world \<Rightarrow> world" where
  "addTrackListener pc remote w = update_pc pc (\<lambda>p. p\<lparr>pc_track_listener := Some remote\<rparr>) w"

text \<open>\<^verbatim>\<open>peerConnection.close()\<close>: never throws, also on a closed connection.\<close>

definition closePeerConnection :: "pc_ref \<Rightarrow> world \<Rightarrow> world" where
  "closePeerConnection pc w =
     emit (PeerConnectionClosed pc) (update_pc pc (\<lambda>p. p\<lparr>pc_closed := True\<rparr>) w)"

text \<open>\<^verbatim>\<open>new MediaStream()\<close> and \<^verbatim>\<open>stream.addTrack(track)\<close> (a track already in the
  stream is not added again).\<close>

definition newMediaStream :: "world \<Rightarrow> stream_ref \<times> world" where
  "newMediaStream w = (length (streams w), w\<lparr>streams := streams w @ [[]]\<rparr>)"

definition addTrack :: "stream_ref \<Rightarrow> track_ref \<Rightarrow> world \<Rightarrow> world" where
  "addTrack st t w =
     w\<lparr>streams := (streams w)[st := (if t \<in> set (streams w ! st) then streams w ! st
                                       else streams w ! st @ [t])]\<rparr>"

text \<open>\<^verbatim>\<open>track.stop()\<close>\<close>

definition stopTrack :: "track_ref \<Rightarrow> world \<Rightarrow> world" where
  "stopTrack t w = emit (TrackStopped t) (update_track t (\<lambda>tr. tr\<lparr>t_stopped := True\<rparr>) w)"

text \<open>New track objects enter the store (captured locally or received from the peer);
  their references are numbered from the end of the store.\<close>

primrec refs_from :: "nat \<Rightarrow> 'a list \<Rightarrow> nat list" where
  "refs_from n [] = []"
| "refs_from n (x # xs) = n # refs_from (Suc n) xs"

definition allocTracks :: "track_obj list \<Rightarrow> world \<Rightarrow> track_ref list \<times> world" where
  "allocTracks ts w = (refs_from (length (tracks w)) ts, w\<lparr>tracks := tracks w @ ts\<rparr>)"

text \<open>\<^verbatim>\<open>setRemoteDescription\<close> when the browser accepts the answer: the description is
  set, a \<^verbatim>\<open>track\<close> event is fired for each incoming track at the listener registered on
  the connection, and the promise resolves. When the browser fires these events is its own
  choice and an input here, the widget has no say in it: \<open>early\<close> are the tracks whose
  events are fired before the promise resolves (what the WebRTC specification prescribes
  for the tracks of the description), \<open>late\<close> those whose events are fired after it. A
  rejected answer fires no event. \<open>handler\<close> is the body of the registered listener.\<close>

primrec fireTrackEvents ::
  "(stream_ref \<Rightarrow> track_ref \<Rightarrow> world \<Rightarrow> world) \<Rightarrow> pc_ref \<Rightarrow> track_ref list \<Rightarrow> world \<Rightarrow> world"
where
  "fireTrackEvents handler pc [] w = w"
| "fireTrackEvents handler pc (t # ts) w =
     fireTrackEvents handler pc ts
       (case lookup (pcs w) pc of
          None \<Rightarrow> w
        | Some p \<Rightarrow> (case pc_track_listener p of None \<Rightarrow> w | Some remote \<Rightarrow> handler remote t w))"

definition applyRemoteDescription ::
  "(stream_ref \<Rightarrow> track_ref \<Rightarrow> world \<Rightarrow> world) \<Rightarrow> pc_ref \<Rightarrow> string \<Rightarrow> track_obj list \<Rightarrow>
   track_obj list \<Rightarrow> world \<Rightarrow> world" where
  "applyRemoteDescription handler pc sdp early late w =
     (let w1 = update_pc pc (\<lambda>p. p\<lparr>pc_remote_description := Some sdp\<rparr>) w;
          (ts1, w2) = allocTracks early w1;
          w3 = emit (RemoteDescriptionApplied pc) (fireTrackEvents handler pc ts1 w2);
          (ts2, w4) = allocTracks late w3
      in fireTrackEvents handler pc ts2 w4)"

text \<open>Calling a method on a field that may hold \<^verbatim>\<open>undefined\<close> throws a TypeError.\<close>

definition undefined_access :: js_error where
  "undefined_access = TypeError ''Cannot read properties of undefined''"

definition getTracks :: "stream_ref option \<Rightarrow> world \<Rightarrow> js_error + track_ref list" where
  "getTracks st w =
     (case st of
        None \<Rightarrow> Inl undefined_access
      | Some r \<Rightarrow> Inr (case lookup (streams w) r of None \<Rightarrow> [] | Some ts \<Rightarrow> ts))"

definition stop :: "track_ref option \<Rightarrow> world \<Rightarrow> js_error + world" where
  "stop t w = (case t of None \<Rightarrow> Inl undefined_access | Some r \<Rightarrow> Inr (stopTrack r w))"

definition close :: "pc_ref option \<Rightarrow> world \<Rightarrow> js_error + world" where
  "close pc w =
     (case pc of None \<Rightarrow> Inl undefined_access | Some r \<Rightarrow> Inr (closePeerConnection r w))"

text \<open>\<^verbatim>\<open>this._videoEl.removeAttribute("src"); this._videoEl.load()\<close>\<close>

definition resetVideo :: "world \<Rightarrow> js_error + world" where
  "resetVideo w =
     (case video w of
        None \<Rightarrow> Inl undefined_access
      | Some v \<Rightarrow> Inr (w\<lparr>video := Some (v\<lparr>src := None, loads := loads v + 1\<rparr>)\<rparr>))"

subsection \<open>The backend's data and the replies of the outside\<close>

text \<open>What \<^verbatim>\<open>fetchWebRtcConfig\<close> and \<^verbatim>\<open>fetchWebRtcSettings\<close> resolve to (their types
  live in \<^verbatim>\<open>../data/camera\<close> and \<^verbatim>\<open>../data/rtsp_to_webrtc\<close>; only the members the
  widget reads are kept, each possibly absent).\<close>

record web_rtc_config =
  rtc_configuration :: "rtc_configuration option"
  create_data_channel :: "bool option"
  audio_direction :: "string option"

record web_rtc_settings =
  stun_server :: "string option"

text \<open>One reply for every call the widget awaits or listens to during a start:
  \<^item> the backend: \<open>config_reply\<close> (\<^verbatim>\<open>fetchWebRtcConfig\<close>), \<open>component_loaded\<close>
    (\<^verbatim>\<open>isComponentLoaded(hass, "rtsp_to_webrtc")\<close>), \<open>settings_reply\<close>
    (\<^verbatim>\<open>fetchWebRtcSettings\<close>), \<open>answer_reply\<close> (\<^verbatim>\<open>handleWebRtcOffer\<close>, the member
    \<^verbatim>\<open>answer\<close> of what it resolves to);
  \<^item> the browser: \<open>media_devices\<close> (\<^verbatim>\<open>navigator.mediaDevices\<close> is there),
    \<open>user_media_reply\<close> and \<open>display_media_reply\<close> (the tracks of the captured stream),
    \<open>offer_reply\<close> (the \<^verbatim>\<open>sdp\<close> of \<^verbatim>\<open>createOffer\<close>), \<open>local_description_reply\<close>,
    \<open>icecandidate_events\<close> (the candidate string of each \<^verbatim>\<open>icecandidate\<close> event in
    order, \<open>None\<close> for the event whose candidate is null), \<open>remote_description_reply\<close>
    (when the answer is accepted, the incoming tracks whose events are fired before the
    promise of \<^verbatim>\<open>setRemoteDescription\<close> resolves and those whose events are fired
    after).\<close>

record replies =
  config_reply :: "js_error + web_rtc_config option"
  component_loaded :: bool
  settings_reply :: "js_error + web_rtc_settings option"
  media_devices :: bool
  user_media_reply :: "js_error + track_obj list"
  display_media_reply :: "js_error + track_obj list"
  offer_reply :: "js_error + string"
  local_description_reply :: "js_error + unit"
  icecandidate_events :: "string option list"
  answer_reply :: "js_error + string"
  remote_description_reply :: "js_error + track_obj list \<times> track_obj list"

subsection \<open>The widget\<close>

text \<open>The fields of \<^verbatim>\<open>HaWebRtcPlayer\<close> that the negotiation reads or writes. The playback
  attributes (\<^verbatim>\<open>controls\<close>, \<^verbatim>\<open>muted\<close>, \<^verbatim>\<open>autoplay\<close>, \<^verbatim>\<open>playsinline\<close>, the poster)
  are handed to the video element unchanged and are left out; \<^verbatim>\<open>hass\<close> is the opaque
  handle of the backend.\<close>

record component =
  entityid :: string
  error :: "string option"
  peerConnection :: "pc_ref option"
  remoteStream :: "stream_ref option"
  localReturnAudioTrack :: "track_ref option"

text \<open>\<^verbatim>\<open>render\<close> (lines 66-96): the alert when \<^verbatim>\<open>_error\<close> is truthy, else the video with
  the microphone button when a local audio track is held.\<close>

datatype icon = mdiMicrophone | mdiMicrophoneOff

datatype view = Alert string | Player "(icon \<times> string) option"

definition enabled :: "world \<Rightarrow> track_ref \<Rightarrow> bool" where
  "enabled w t = (case lookup (tracks w) t of None \<Rightarrow> False | Some tr \<Rightarrow> t_enabled tr)"

definition render :: "component \<Rightarrow> world \<Rightarrow> view" where
  "render s w =
     (if truthy (error s) then Alert (the (error s))
      else Player
        (case localReturnAudioTrack s of
           None \<Rightarrow> None
         | Some t \<Rightarrow>
             Some (if enabled w t then mdiMicrophone else mdiMicrophoneOff,
                   if enabled w t then ''Turn off mic'' else ''Turn on mic'')))"

text \<open>\<^verbatim>\<open>toggleMic\<close> (lines 60-64): the field is used unguarded.\<close>

definition toggleMic :: "component \<Rightarrow> world \<Rightarrow> js_error + world" where
  "toggleMic s w =
     (case localReturnAudioTrack s of
        None \<Rightarrow> Inl undefined_access
      | Some t \<Rightarrow> Inr (update_track t (\<lambda>tr. tr\<lparr>t_enabled := \<not> t_enabled tr\<rparr>) w))"

text \<open>\<^verbatim>\<open>getMediaTracks\<close> (lines 218-230): a rejected capture is logged and gives no
  tracks.\<close>

definition getMediaTracks :: "replies \<Rightarrow> string \<Rightarrow> world \<Rightarrow> track_ref list \<times> world" where
  "getMediaTracks e media w =
     (case (if media = ''user'' then user_media_reply e else display_media_reply e) of
        Inl err \<Rightarrow> ([], w)
      | Inr captured \<Rightarrow> allocTracks captured w)"

text \<open>\<^verbatim>\<open>_fetchPeerConfiguration\<close> (lines 232-247)\<close>

definition fetchPeerConfiguration :: "replies \<Rightarrow> js_error + rtc_configuration" where
  "fetchPeerConfiguration e =
     (if \<not> component_loaded e then Inr empty_configuration
      else case settings_reply e of
             Inl err \<Rightarrow> Inl err
           | Inr settings \<Rightarrow>
               (case settings of
                  None \<Rightarrow> Inr empty_configuration
                | Some st \<Rightarrow>
                    if \<not> truthy (stun_server st) then Inr empty_configuration
                    else Inr \<lparr>iceServers =
                                Some [\<lparr>urls = [''stun:'' @ the (stun_server st)]\<rparr>]\<rparr>))"

text \<open>\<^verbatim>\<open>_startWebRtc\<close>, lines 123-129: the configuration of the backend, or the fallback.
  The fetched \<^verbatim>\<open>web_rtc_config\<close> is returned too, the later steps read it.\<close>

definition resolveConfiguration ::
  "replies \<Rightarrow> js_error + (web_rtc_config option \<times> rtc_configuration)" where
  "resolveConfiguration e =
     (case config_reply e of
        Inl err \<Rightarrow> Inl err
      | Inr web_rtc_config \<Rightarrow>
          (case (case web_rtc_config of
                   None \<Rightarrow> fetchPeerConfiguration e
                 | Some c \<Rightarrow>
                     (case rtc_configuration c of
                        None \<Rightarrow> fetchPeerConfiguration e
                      | Some conf \<Rightarrow> Inr conf)) of
             Inl err \<Rightarrow> Inl err
           | Inr peer_configuration \<Rightarrow> Inr (web_rtc_config, peer_configuration)))"

text \<open>Lines 171-179: the \<^verbatim>\<open>icecandidate\<close> listener appends one line for each candidate
  and resolves the promise at the first event without a candidate. When no such event
  comes the promise is never resolved: \<open>None\<close>.\<close>

fun iceResolver :: "string option list \<Rightarrow> string \<Rightarrow> string option" where
  "iceResolver [] candidates = None"
| "iceResolver (None # evs) candidates = Some candidates"
| "iceResolver (Some c # evs) candidates =
     iceResolver evs (candidates @ ''a='' @ c @ [CHR 0x0D, CHR 0x0A])"

text \<open>Lines 197-200: the body of the \<^verbatim>\<open>track\<close> listener. Without a video element the
  assignment throws inside the handler, after the track was added.\<close>

definition onTrack :: "stream_ref \<Rightarrow> track_ref \<Rightarrow> world \<Rightarrow> world" where
  "onTrack remote t w =
     (let w1 = addTrack remote t w
      in case video w1 of
           None \<Rightarrow> w1
         | Some v \<Rightarrow> emit (SrcObjectAssigned remote) (w1\<lparr>video := Some (v\<lparr>srcObject := Some remote\<rparr>)\<rparr>))"

text \<open>Lines 182-216: the signaling exchange and the application of the answer.\<close>

definition startWebRtc_answer ::
  "replies \<Rightarrow> pc_ref \<Rightarrow> string \<Rightarrow> component \<Rightarrow> world \<Rightarrow> outcome \<times> component \<times> world" where
  "startWebRtc_answer e pc offer_sdp s w =
     (let w1 = emit (HandleWebRtcOffer (entityid s) offer_sdp) w
      in case answer_reply e of
           Inl err \<Rightarrow>
             (Resolved,
              s\<lparr>error := Some (''Failed to start WebRTC stream: '' @ message err)\<rparr>,
              closePeerConnection pc w1)
         | Inr answer \<Rightarrow>
             (let (remote, w2) = newMediaStream w1;
                  w3 = addTrackListener pc remote w2;
                  s1 = s\<lparr>remoteStream := Some remote\<rparr>
              in case remote_description_reply e of
                   Inl err \<Rightarrow>
                     (Resolved,
                      s1\<lparr>error := Some (''Failed to connect WebRTC stream: '' @ message err)\<rparr>,
                      closePeerConnection pc w3)
                 | Inr incoming \<Rightarrow>
                     (Resolved,
                      s1\<lparr>peerConnection := Some pc\<rparr>,
                      applyRemoteDescription onTrack pc answer (fst incoming) (snd incoming)
                        w3)))"

text \<open>Lines 161-180: the offer, the local description and the wait for the candidates.\<close>

definition startWebRtc_offer ::
  "replies \<Rightarrow> pc_ref \<Rightarrow> component \<Rightarrow> world \<Rightarrow> outcome \<times> component \<times> world" where
  "startWebRtc_offer e pc s w =
     (case offer_reply e of
        Inl err \<Rightarrow> (Rejected err, s, w)
      | Inr sdp \<Rightarrow>
          (case local_description_reply e of
             Inl err \<Rightarrow> (Rejected err, s, w)
           | Inr u \<Rightarrow>
               (let w1 = addIceCandidateListener pc (setLocalDescription pc sdp w)
                in case iceResolver (icecandidate_events e) [] of
                     None \<Rightarrow> (Pending, s, w1)
                   | Some candidates \<Rightarrow> startWebRtc_answer e pc (sdp @ candidates) s w1)))"

text \<open>Lines 140-159: the audio transceiver. The result is the error thrown, if any, with
  the state and the store as they are at that point.\<close>

definition startWebRtc_audio ::
  "replies \<Rightarrow> web_rtc_config option \<Rightarrow> pc_ref \<Rightarrow> component \<Rightarrow> world \<Rightarrow>
   js_error option \<times> component \<times> world" where
  "startWebRtc_audio e web_rtc_config pc s w =
     (if (case web_rtc_config of None \<Rightarrow> False
          | Some c \<Rightarrow> audio_direction c = Some ''sendrecv'') \<and> media_devices e
      then
        (let (captured, w1) = getMediaTracks e ''user'' w;
             (s1, w2) = (case captured of
                           [] \<Rightarrow> (s, w1)
                         | t # ts \<Rightarrow> (s\<lparr>localReturnAudioTrack := Some t\<rparr>,
                                      update_track t (\<lambda>tr. tr\<lparr>t_enabled := False\<rparr>) w1))
         in case addTransceiver pc
                   (case localReturnAudioTrack s1 of None \<Rightarrow> Undefined | Some t \<Rightarrow> Track t)
                   sendrecv w2 of
              Inl err \<Rightarrow> (Some err, s1, w2)
            | Inr w3 \<Rightarrow> (None, s1, w3))
      else
        (case addTransceiver pc (Kind ''audio'') recvonly w of
           Inl err \<Rightarrow> (Some err, s, w)
         | Inr w1 \<Rightarrow> (None, s, w1)))"

text \<open>Lines 130-136: the peer connection, with the data channel some cameras need.\<close>

definition startWebRtc_connection ::
  "web_rtc_config option \<Rightarrow> rtc_configuration \<Rightarrow> world \<Rightarrow> pc_ref \<times> world" where
  "startWebRtc_connection web_rtc_config peer_configuration w =
     (let (pc, w1) = newPeerConnection peer_configuration w
      in (pc,
          if (case web_rtc_config of None \<Rightarrow> False
              | Some c \<Rightarrow> create_data_channel c = Some True)
          then createDataChannel pc ''dataSendChannel'' w1 else w1))"

text \<open>\<^verbatim>\<open>_startWebRtc\<close> (lines 120-216)\<close>

definition startWebRtc :: "replies \<Rightarrow> component \<Rightarrow> world \<Rightarrow> outcome \<times> component \<times> world" where
  "startWebRtc e s w =
     (let s1 = s\<lparr>error := None\<rparr>
      in case resolveConfiguration e of
           Inl err \<Rightarrow> (Rejected err, s1, w)
         | Inr (web_rtc_config, peer_configuration) \<Rightarrow>
             (let (pc, w2) = startWebRtc_connection web_rtc_config peer_configuration w
              in case startWebRtc_audio e web_rtc_config pc s1 w2 of
                   (Some err, s2, w3) \<Rightarrow> (Rejected err, s2, w3)
                 | (None, s2, w3) \<Rightarrow>
                     (case addTransceiver pc (Kind ''video'') recvonly w3 of
                        Inl err \<Rightarrow> (Rejected err, s2, w3)
                      | Inr w4 \<Rightarrow> startWebRtc_offer e pc s2 w4)))"

text \<open>\<^verbatim>\<open>updated\<close> (lines 110-118): \<open>changed\<close> holds the names of the changed
  properties.\<close>

definition updated ::
  "string set \<Rightarrow> replies \<Rightarrow> component \<Rightarrow> world \<Rightarrow> outcome \<times> component \<times> world" where
  "updated changed e s w =
     (if ''entityid'' \<notin> changed then (Resolved, s, w)
      else if video w = None then (Resolved, s, w)
      else startWebRtc e s w)"

text \<open>\<^verbatim>\<open>connectedCallback\<close> (lines 98-103)\<close>

definition connectedCallback ::
  "bool \<Rightarrow> replies \<Rightarrow> component \<Rightarrow> world \<Rightarrow> outcome \<times> component \<times> world" where
  "connectedCallback hasUpdated e s w =
     (if hasUpdated then startWebRtc e s w else (Resolved, s, w))"

text \<open>\<^verbatim>\<open>_cleanUp\<close> (lines 249-268), one definition for each guarded step. \<open>close_reply\<close>
  is how the backend settles \<^verbatim>\<open>closeWebRtcStream\<close>.\<close>

definition cleanUp_remoteStream :: "component \<Rightarrow> world \<Rightarrow> js_error + component \<times> world" where
  "cleanUp_remoteStream s w =
     (if remoteStream s \<noteq> None
      then (case getTracks (remoteStream s) w of
              Inl err \<Rightarrow> Inl err
            | Inr ts \<Rightarrow> Inr (s\<lparr>remoteStream := None\<rparr>, fold stopTrack ts w))
      else Inr (s, w))"

definition cleanUp_localTrack :: "component \<Rightarrow> world \<Rightarrow> js_error + world" where
  "cleanUp_localTrack s w =
     (if localReturnAudioTrack s \<noteq> None then stop (localReturnAudioTrack s) w else Inr w)"

definition cleanUp_video :: "world \<Rightarrow> js_error + world" where
  "cleanUp_video w = (if video w \<noteq> None then resetVideo w else Inr w)"

definition cleanUp_peerConnection ::
  "js_error + unit \<Rightarrow> component \<Rightarrow> world \<Rightarrow> outcome \<times> component \<times> world" where
  "cleanUp_peerConnection close_reply s w =
     (if peerConnection s \<noteq> None
      then (case close (peerConnection s) w of
              Inl err \<Rightarrow> (Rejected err, s, w)
            | Inr w1 \<Rightarrow>
                (case close_reply of Inl err \<Rightarrow> Rejected err | Inr u \<Rightarrow> Resolved,
                 s\<lparr>peerConnection := None\<rparr>,
                 emit (CloseWebRtcStream (entityid s)) w1))
      else (Resolved, s, w))"

definition cleanUp ::
  "js_error + unit \<Rightarrow> component \<Rightarrow> world \<Rightarrow> outcome \<times> component \<times> world" where
  "cleanUp close_reply s w =
     (case cleanUp_remoteStream s w of
        Inl err \<Rightarrow> (Rejected err, s, w)
      | Inr (s1, w1) \<Rightarrow>
          (case cleanUp_localTrack s1 w1 of
             Inl err \<Rightarrow> (Rejected err, s1, w1)
           | Inr w2 \<Rightarrow>
               (case cleanUp_video w2 of
                  Inl err \<Rightarrow> (Rejected err, s1, w2)
                | Inr w3 \<Rightarrow> cleanUp_peerConnection close_reply s1 w3)))"

text \<open>\<^verbatim>\<open>disconnectedCallback\<close> (lines 105-108)\<close>

definition disconnectedCallback ::
  "js_error + unit \<Rightarrow> component \<Rightarrow> world \<Rightarrow> outcome \<times> component \<times> world" where
  "disconnectedCallback close_reply s w = cleanUp close_reply s w"

section \<open>Reading a run\<close>

text \<open>The events a run added to the trace, and the projections the claims speak of:
  the offers sent to the backend, the release requests, the connections closed, the
  answers applied and the streams assigned to the video element.\<close>

definition new_events :: "world \<Rightarrow> world \<Rightarrow> event list" where
  "new_events w w' = drop (length (events w)) (events w')"

fun offers :: "event list \<Rightarrow> string list" where
  "offers [] = []"
| "offers (HandleWebRtcOffer eid sdp # evs) = sdp # offers evs"
| "offers (ev # evs) = offers evs"

fun releases :: "event list \<Rightarrow> string list" where
  "releases [] = []"
| "releases (CloseWebRtcStream eid # evs) = eid # releases evs"
| "releases (ev # evs) = releases evs"

fun closed_pcs :: "event list \<Rightarrow> pc_ref list" where
  "closed_pcs [] = []"
| "closed_pcs (PeerConnectionClosed pc # evs) = pc # closed_pcs evs"
| "closed_pcs (ev # evs) = closed_pcs evs"

fun applied :: "event list \<Rightarrow> pc_ref list" where
  "applied [] = []"
| "applied (RemoteDescriptionApplied pc # evs) = pc # applied evs"
| "applied (ev # evs) = applied evs"

fun attached :: "event list \<Rightarrow> stream_ref list" where
  "attached [] = []"
| "attached (SrcObjectAssigned st # evs) = st # attached evs"
| "attached (ev # evs) = attached evs"

fun stopped :: "event list \<Rightarrow> track_ref list" where
  "stopped [] = []"
| "stopped (TrackStopped t # evs) = t # stopped evs"
| "stopped (ev # evs) = stopped evs"



text \<open>The lines appended to the offer for the candidates \<open>cs\<close>.\<close>

definition candidate_lines :: "string list \<Rightarrow> string" where
  "candidate_lines cs = concat (map (\<lambda>c. ''a='' @ c @ [CHR 0x0D, CHR 0x0A]) cs)"

text \<open>The store after line 160 added the receive-only video transceiver.\<close>

definition video_line :: "pc_ref \<Rightarrow> world \<Rightarrow> world" where
  "video_line pc w = update_pc pc
     (\<lambda>p. p\<lparr>pc_transceivers := pc_transceivers p @ [\<lparr>seed = Kind ''video'', dir = recvonly\<rparr>]\<rparr>) w"

text \<open>The media kind of a transceiver (that of its track when it was made from one), and
  the audio transceivers of a connection.\<close>

definition transceiver_kind :: "world \<Rightarrow> transceiver \<Rightarrow> string option" where
  "transceiver_kind w tr =
     (case seed tr of
        Track t \<Rightarrow> map_option t_kind (lookup (tracks w) t)
      | Kind k \<Rightarrow> Some k
      | Undefined \<Rightarrow> None)"

definition audio_transceivers :: "world \<Rightarrow> pc_ref \<Rightarrow> transceiver list" where
  "audio_transceivers w pc =
     filter (\<lambda>tr. transceiver_kind w tr = Some ''audio'')
       (case lookup (pcs w) pc of None \<Rightarrow> [] | Some p \<Rightarrow> pc_transceivers p)"

text \<open>The backend gave no transport configuration; the fallback gave no settings (the
  component is not loaded, there are no settings, or they name no stun server).\<close>

definition no_transport_configuration :: "replies \<Rightarrow> bool" where
  "no_transport_configuration e =
     (case config_reply e of
        Inl err \<Rightarrow> False
      | Inr None \<Rightarrow> True
      | Inr (Some c) \<Rightarrow> rtc_configuration c = None)"

definition no_fallback_settings :: "replies \<Rightarrow> bool" where
  "no_fallback_settings e =
     (\<not> component_loaded e \<or>
      (case settings_reply e of
         Inl err \<Rightarrow> False
       | Inr None \<Rightarrow> True
       | Inr (Some st) \<Rightarrow> \<not> truthy (stun_server st)))"

text \<open>The state and the store a run ends with.\<close>

definition state_of :: "outcome \<times> component \<times> world \<Rightarrow> component" where
  "state_of r = fst (snd r)"

definition world_of :: "outcome \<times> component \<times> world \<Rightarrow> world" where
  "world_of r = snd (snd r)"

subsection \<open>Concrete runs\<close>

text \<open>A widget that was just rendered for a camera, on a page with its video element;
  a backend and a browser that carry a two-way audio negotiation through; and the same
  with one reply changed.\<close>

definition fresh :: component where
  "fresh = \<lparr>entityid = ''camera.door'', error = None, peerConnection = None,
            remoteStream = None, localReturnAudioTrack = None\<rparr>"

definition page :: world where
  "page = \<lparr>pcs = [], tracks = [], streams = [],
           video = Some \<lparr>srcObject = None, src = None, loads = 0\<rparr>, events = []\<rparr>"

definition microphone :: track_obj where
  "microphone = \<lparr>t_kind = ''audio'', t_enabled = True, t_stopped = False\<rparr>"

definition camera_video :: track_obj where
  "camera_video = \<lparr>t_kind = ''video'', t_enabled = True, t_stopped = False\<rparr>"

definition two_way :: replies where
  "two_way =
     \<lparr>config_reply = Inr (Some \<lparr>rtc_configuration = None, create_data_channel = Some True,
                                 audio_direction = Some ''sendrecv''\<rparr>),
      component_loaded = False,
      settings_reply = Inr None,
      media_devices = True,
      user_media_reply = Inr [microphone],
      display_media_reply = Inl (JsError ''NotAllowedError'' ''Permission denied''),
      offer_reply = Inr ''v=0'',
      local_description_reply = Inr (),
      icecandidate_events = [Some ''c1'', Some ''c2'', None],
      answer_reply = Inr ''v=1'',
      remote_description_reply = Inr ([camera_video], [])\<rparr>"

definition signaling_down :: replies where
  "signaling_down = two_way\<lparr>answer_reply := Inl (JsError ''Error'' ''Connection lost'')\<rparr>"

definition answer_refused :: replies where
  "answer_refused =
     two_way\<lparr>remote_description_reply := Inl (JsError ''InvalidAccessError'' ''Bad answer'')\<rparr>"

definition capture_denied :: replies where
  "capture_denied =
     two_way\<lparr>user_media_reply := Inl (JsError ''NotAllowedError'' ''Permission denied'')\<rparr>"

definition unconfigured :: replies where
  "unconfigured = two_way\<lparr>config_reply := Inr None\<rparr>"


text \<open>Every event of the list assigns a stream to the video element.\<close>

fun only_assignments :: "event list \<Rightarrow> bool" where
  "only_assignments [] = True"
| "only_assignments (SrcObjectAssigned st # evs) = only_assignments evs"
| "only_assignments (ev # evs) = False"

text \<open>The backend answers the offer and the browser accepts the answer as the remote
  description: neither of the two failure points is met.\<close>

definition answer_applies :: "replies \<Rightarrow> bool" where
  "answer_applies e =
     (case answer_reply e of
        Inl err \<Rightarrow> False
      | Inr answer \<Rightarrow>
          (case remote_description_reply e of Inl err \<Rightarrow> False | Inr incoming \<Rightarrow> True))"

text \<open>The results of the two-way negotiation: the widget with its session recorded and
  the store with the stream on the video element. \<open>offered\<close> is the peer connection when
  the offer is sent.\<close>

definition offer_sent :: event where
  "offer_sent = HandleWebRtcOffer ''camera.door'' (''v=0'' @ candidate_lines [''c1'', ''c2''])"

definition offered :: pc_obj where
  "offered =
     \<lparr>pc_configuration = empty_configuration, pc_data_channels = [''dataSendChannel''],
      pc_transceivers = [\<lparr>seed = Track 0, dir = sendrecv\<rparr>,
                         \<lparr>seed = Kind ''video'', dir = recvonly\<rparr>],
      pc_local_description = Some ''v=0'', pc_remote_description = None,
      pc_icecandidate_listener = True, pc_track_listener = None, pc_closed = False\<rparr>"

definition connected :: component where
  "connected = fresh\<lparr>peerConnection := Some 0, remoteStream := Some 0,
                      localReturnAudioTrack := Some 0\<rparr>"

definition streaming :: world where
  "streaming =
     \<lparr>pcs = [offered\<lparr>pc_remote_description := Some ''v=1'', pc_track_listener := Some 0\<rparr>],
      tracks = [microphone\<lparr>t_enabled := False\<rparr>, camera_video],
      streams = [[1]],
      video = Some \<lparr>srcObject = Some 0, src = None, loads = 0\<rparr>,
      events = [offer_sent, SrcObjectAssigned 0, RemoteDescriptionApplied 0]\<rparr>"

text \<open>The page then shows another camera: the identifier changes on the connected
  widget, and the widget is updated; in \<open>aborted_restart\<close> the backend rejects the new
  offer.\<close>

definition renamed :: component where
  "renamed = connected\<lparr>entityid := ''camera.yard''\<rparr>"

definition restart :: "outcome \<times> component \<times> world" where
  "restart = updated {''entityid''} two_way renamed streaming"

definition aborted_restart :: "outcome \<times> component \<times> world" where
  "aborted_restart = updated {''entityid''} signaling_down renamed streaming"

text \<open>A widget without a session on a page without its video element.\<close>

definition blank_page :: world where
  "blank_page = page\<lparr>video := None\<rparr>"

section \<open>Lemmas\<close>

lemmas prim_defs = emit_def update_pc_def update_track_def newPeerConnection_def
  createDataChannel_def addTransceiver_def setLocalDescription_def addIceCandidateListener_def
  addTrackListener_def closePeerConnection_def newMediaStream_def addTrack_def stopTrack_def
  allocTracks_def

subsection \<open>Projections of the trace\<close>

lemma only_assignments_append:
  "only_assignments (xs @ ys) = (only_assignments xs \<and> only_assignments ys)"
  by (induction xs rule: only_assignments.induct) auto

lemma only_assignments_silent:
  "only_assignments evs \<Longrightarrow>
   offers evs = [] \<and> releases evs = [] \<and> closed_pcs evs = [] \<and> applied evs = [] \<and> stopped evs = []"
  by (induction evs rule: only_assignments.induct) auto

lemma releases_append: "releases (xs @ ys) = releases xs @ releases ys"
  by (induction xs rule: releases.induct) auto

lemma closed_pcs_append: "closed_pcs (xs @ ys) = closed_pcs xs @ closed_pcs ys"
  by (induction xs rule: closed_pcs.induct) auto

lemma offers_append: "offers (xs @ ys) = offers xs @ offers ys"
  by (induction xs rule: offers.induct) auto

lemma stopped_append: "stopped (xs @ ys) = stopped xs @ stopped ys"
  by (induction xs rule: stopped.induct) auto


subsection \<open>Track events\<close>

lemma onTrack_frame:
  "pcs (onTrack r t w) = pcs w" "tracks (onTrack r t w) = tracks w"
  "length (streams (onTrack r t w)) = length (streams w)"
  "n \<le> r \<Longrightarrow> take n (streams (onTrack r t w)) = take n (streams w)"
  by (auto simp: onTrack_def prim_defs Let_def split: option.splits)

lemma onTrack_events:
  "\<exists>evs. events (onTrack r t w) = events w @ evs \<and> only_assignments evs"
  by (auto simp: onTrack_def prim_defs Let_def split: option.splits)

lemma fire_frame:
  "pcs (fireTrackEvents onTrack pc ts w) = pcs w \<and> tracks (fireTrackEvents onTrack pc ts w) = tracks w
   \<and> length (streams (fireTrackEvents onTrack pc ts w)) = length (streams w)"
  by (induction ts arbitrary: w) (auto simp: onTrack_frame split: option.splits)

lemma fire_streams:
  "\<lbrakk>pc < length (pcs w); pc_track_listener (pcs w ! pc) = Some r; n \<le> r\<rbrakk> \<Longrightarrow>
   take n (streams (fireTrackEvents onTrack pc ts w)) = take n (streams w)"
  by (induction ts arbitrary: w) (auto simp: onTrack_frame lookup_def split: option.splits)

lemma fire_events:
  "\<exists>evs. events (fireTrackEvents onTrack pc ts w) = events w @ evs \<and> only_assignments evs"
proof (induction ts arbitrary: w)
  case Nil
  then show ?case by simp
next
  case (Cons t ts)
  show ?case
  proof (cases "lookup (pcs w) pc")
    case None
    then show ?thesis using Cons.IH [of w] by simp
  next
    case (Some p)
    show ?thesis
    proof (cases "pc_track_listener p")
      case None
      then show ?thesis using Some Cons.IH [of w] by simp
    next
      case listener: (Some r)
      obtain e1 where e1: "events (onTrack r t w) = events w @ e1" "only_assignments e1"
        using onTrack_events by blast
      obtain e2 where e2:
        "events (fireTrackEvents onTrack pc ts (onTrack r t w)) = events (onTrack r t w) @ e2"
        "only_assignments e2"
        using Cons.IH [of "onTrack r t w"] by blast
      have "events (fireTrackEvents onTrack pc (t # ts) w) = events w @ (e1 @ e2)"
        using e1 e2 Some listener by simp
      moreover have "only_assignments (e1 @ e2)"
        using e1 e2 by (simp add: only_assignments_append)
      ultimately show ?thesis by blast
    qed
  qed
qed



text \<open>The accepted answer: the assignments of the early track events, the resolution of
  the promise, the assignments of the late ones. Early assignments are there exactly when
  the browser fires an early event and the widget has its video element.\<close>

lemma apply_events:
  "\<exists>as1 as2. events (applyRemoteDescription onTrack pc sdp early late w) =
       events w @ as1 @ RemoteDescriptionApplied pc # as2
     \<and> only_assignments as1 \<and> only_assignments as2"
proof -
  define w2 where "w2 = snd (allocTracks early
      (update_pc pc (\<lambda>p. p\<lparr>pc_remote_description := Some sdp\<rparr>) w))"
  define f1 where "f1 = fireTrackEvents onTrack pc (refs_from (length (tracks w)) early) w2"
  define w4 where "w4 = snd (allocTracks late (emit (RemoteDescriptionApplied pc) f1))"
  have W: "applyRemoteDescription onTrack pc sdp early late w =
      fireTrackEvents onTrack pc (refs_from (length (tracks f1)) late) w4"
    by (simp add: applyRemoteDescription_def Let_def w2_def f1_def w4_def prim_defs)
  obtain as1 where as1: "events f1 = events w2 @ as1" "only_assignments as1"
    unfolding f1_def using fire_events by blast
  obtain as2 where as2: "events (fireTrackEvents onTrack pc (refs_from (length (tracks f1)) late) w4) =
      events w4 @ as2" "only_assignments as2"
    using fire_events by blast
  have "events w2 = events w" by (simp add: w2_def prim_defs)
  moreover have "events w4 = events f1 @ [RemoteDescriptionApplied pc]"
    by (simp add: w4_def prim_defs)
  ultimately have "events (applyRemoteDescription onTrack pc sdp early late w) =
      events w @ as1 @ RemoteDescriptionApplied pc # as2"
    using W as1 as2 by simp
  then show ?thesis using as1 as2 by blast
qed


lemma apply_frame:
  assumes "pc < length (pcs w)" and "pc_track_listener (pcs w ! pc) = Some r" and "n \<le> r"
  shows "length (pcs (applyRemoteDescription onTrack pc sdp early late w)) = length (pcs w)
     \<and> take pc (pcs (applyRemoteDescription onTrack pc sdp early late w)) = take pc (pcs w)
     \<and> pc_configuration (pcs (applyRemoteDescription onTrack pc sdp early late w) ! pc) =
         pc_configuration (pcs w ! pc)
     \<and> pc_transceivers (pcs (applyRemoteDescription onTrack pc sdp early late w) ! pc) =
         pc_transceivers (pcs w ! pc)
     \<and> tracks (applyRemoteDescription onTrack pc sdp early late w) = tracks w @ early @ late
     \<and> take n (streams (applyRemoteDescription onTrack pc sdp early late w)) = take n (streams w)"
  using assms
  by (simp add: applyRemoteDescription_def prim_defs Let_def fire_frame fire_streams)

subsection \<open>The candidate wait\<close>

lemma iceResolver_Some:
  "iceResolver evs acc = Some r \<Longrightarrow>
   \<exists>cs rest. evs = map Some cs @ None # rest \<and> r = acc @ candidate_lines cs"
proof (induction evs acc rule: iceResolver.induct)
  case (1 candidates)
  then show ?case by simp
next
  case (2 evs candidates)
  then have "None # evs = map Some [] @ None # evs \<and> r = candidates @ candidate_lines []"
    by (simp add: candidate_lines_def)
  then show ?case by blast
next
  case (3 c evs candidates)
  then obtain cs rest where "evs = map Some cs @ None # rest"
    "r = (candidates @ ''a='' @ c @ [CHR 0x0D, CHR 0x0A]) @ candidate_lines cs"
    by auto
  then have "Some c # evs = map Some (c # cs) @ None # rest \<and> r = candidates @ candidate_lines (c # cs)"
    by (simp add: candidate_lines_def)
  then show ?case by blast
qed

subsection \<open>The phases of a start\<close>

lemma answer_frame:
  assumes "startWebRtc_answer e pc sdp s w = (out, s', w')" and "pc < length (pcs w)"
  shows "out = Resolved \<and> length (pcs w') = length (pcs w) \<and> take pc (pcs w') = take pc (pcs w)
     \<and> pc_configuration (pcs w' ! pc) = pc_configuration (pcs w ! pc)
     \<and> pc_transceivers (pcs w' ! pc) = pc_transceivers (pcs w ! pc)
     \<and> take (length (tracks w)) (tracks w') = tracks w
     \<and> take (length (streams w)) (streams w') = streams w
     \<and> localReturnAudioTrack s' = localReturnAudioTrack s \<and> entityid s' = entityid s"
proof (cases "answer_applies e")
  case False
  then show ?thesis using assms
    by (auto simp: startWebRtc_answer_def answer_applies_def prim_defs Let_def split: sum.splits)
next
  case True
  then obtain answer incoming where r: "answer_reply e = Inr answer"
    "remote_description_reply e = Inr incoming"
    by (auto simp: answer_applies_def split: sum.splits)
  define w3 where "w3 = addTrackListener pc (length (streams w))
       (snd (newMediaStream (emit (HandleWebRtcOffer (entityid s) sdp) w)))"
  have res: "out = Resolved"
    "s' = s\<lparr>remoteStream := Some (length (streams w)), peerConnection := Some pc\<rparr>"
    "w' = applyRemoteDescription onTrack pc answer (fst incoming) (snd incoming) w3"
    using assms(1) r
    by (auto simp: startWebRtc_answer_def Let_def w3_def newMediaStream_def emit_def)
  have w3: "pc < length (pcs w3)" "pc_track_listener (pcs w3 ! pc) = Some (length (streams w))"
    "length (pcs w3) = length (pcs w)" "take pc (pcs w3) = take pc (pcs w)"
    "pc_configuration (pcs w3 ! pc) = pc_configuration (pcs w ! pc)"
    "pc_transceivers (pcs w3 ! pc) = pc_transceivers (pcs w ! pc)"
    "tracks w3 = tracks w" "take (length (streams w)) (streams w3) = streams w"
    using assms(2) by (simp_all add: w3_def prim_defs)
  show ?thesis
    using apply_frame [OF w3(1,2) order_refl, of answer "fst incoming" "snd incoming"] res w3
    by simp
qed

lemma answer_events:
  assumes "startWebRtc_answer e pc sdp s w = (out, s', w')"
  shows "(events w' = events w @ [HandleWebRtcOffer (entityid s) sdp, PeerConnectionClosed pc]
          \<and> peerConnection s' = peerConnection s \<and> video w' = video w
          \<and> \<not> answer_applies e)
       \<or> (\<exists>as1 as2.
            events w' = events w @ HandleWebRtcOffer (entityid s) sdp #
              as1 @ RemoteDescriptionApplied pc # as2
          \<and> only_assignments as1 \<and> only_assignments as2
          \<and> answer_applies e \<and> peerConnection s' = Some pc)"
proof (cases "answer_applies e")
  case False
  then show ?thesis using assms
    by (auto simp: startWebRtc_answer_def answer_applies_def prim_defs Let_def split: sum.splits)
next
  case True
  then obtain answer incoming where r: "answer_reply e = Inr answer"
    "remote_description_reply e = Inr incoming"
    by (auto simp: answer_applies_def split: sum.splits)
  define w3 where "w3 = addTrackListener pc (length (streams w))
       (snd (newMediaStream (emit (HandleWebRtcOffer (entityid s) sdp) w)))"
  have res: "peerConnection s' = Some pc"
    "w' = applyRemoteDescription onTrack pc answer (fst incoming) (snd incoming) w3"
    using assms(1) r
    by (auto simp: startWebRtc_answer_def Let_def w3_def newMediaStream_def emit_def)
  have w3: "events w3 = events w @ [HandleWebRtcOffer (entityid s) sdp]"
    by (simp add: w3_def prim_defs)
  obtain as1 as2 where "events w' = events w3 @ as1 @ RemoteDescriptionApplied pc # as2"
    "only_assignments as1" "only_assignments as2"
    unfolding res(2) using apply_events by blast
  then have "events w' = events w @ HandleWebRtcOffer (entityid s) sdp #
      as1 @ RemoteDescriptionApplied pc # as2
    \<and> only_assignments as1 \<and> only_assignments as2"
    using w3 by simp
  then show ?thesis using True res(1) by blast
qed


lemma offer_frame:
  assumes "startWebRtc_offer e pc s w = (out, s', w')" and "pc < length (pcs w)"
  shows "length (pcs w') = length (pcs w) \<and> take pc (pcs w') = take pc (pcs w)
     \<and> pc_configuration (pcs w' ! pc) = pc_configuration (pcs w ! pc)
     \<and> pc_transceivers (pcs w' ! pc) = pc_transceivers (pcs w ! pc)
     \<and> take (length (tracks w)) (tracks w') = tracks w
     \<and> take (length (streams w)) (streams w') = streams w
     \<and> localReturnAudioTrack s' = localReturnAudioTrack s \<and> entityid s' = entityid s"
proof (cases "\<exists>sdp u c. offer_reply e = Inr sdp \<and> local_description_reply e = Inr u
    \<and> iceResolver (icecandidate_events e) [] = Some c")
  case True
  then obtain sdp u c where r: "offer_reply e = Inr sdp" "local_description_reply e = Inr u"
    "iceResolver (icecandidate_events e) [] = Some c" by blast
  define w1 where "w1 = addIceCandidateListener pc (setLocalDescription pc sdp w)"
  have a: "startWebRtc_answer e pc (sdp @ c) s w1 = (out, s', w')"
    using assms(1) r by (simp add: startWebRtc_offer_def w1_def)
  have w1: "pc < length (pcs w1)" "length (pcs w1) = length (pcs w)" "take pc (pcs w1) = take pc (pcs w)"
    "pc_configuration (pcs w1 ! pc) = pc_configuration (pcs w ! pc)"
    "pc_transceivers (pcs w1 ! pc) = pc_transceivers (pcs w ! pc)"
    "tracks w1 = tracks w" "streams w1 = streams w"
    using assms(2) by (simp_all add: w1_def prim_defs)
  show ?thesis using answer_frame [OF a w1(1)] w1 by simp
next
  case False
  then show ?thesis using assms
    by (auto simp: startWebRtc_offer_def prim_defs Let_def split: sum.splits option.splits)
qed

lemma offer_cases:
  assumes "startWebRtc_offer e pc s w = (out, s', w')" and "pc < length (pcs w)"
  shows "(out \<noteq> Resolved \<and> s' = s \<and> events w' = events w \<and> video w' = video w
          \<and> streams w' = streams w
          \<and> pc_track_listener (pcs w' ! pc) = pc_track_listener (pcs w ! pc)
          \<and> pc_closed (pcs w' ! pc) = pc_closed (pcs w ! pc))
       \<or> (\<exists>sdp cs rest w1. offer_reply e = Inr sdp \<and> icecandidate_events e = map Some cs @ None # rest
          \<and> startWebRtc_answer e pc (sdp @ candidate_lines cs) s w1 = (out, s', w')
          \<and> events w1 = events w \<and> video w1 = video w \<and> streams w1 = streams w \<and> tracks w1 = tracks w
          \<and> length (pcs w1) = length (pcs w)
          \<and> pc_track_listener (pcs w1 ! pc) = pc_track_listener (pcs w ! pc)
          \<and> pc_closed (pcs w1 ! pc) = pc_closed (pcs w ! pc))"
proof (cases "\<exists>sdp u c. offer_reply e = Inr sdp \<and> local_description_reply e = Inr u
    \<and> iceResolver (icecandidate_events e) [] = Some c")
  case True
  then obtain sdp u c where r: "offer_reply e = Inr sdp" "local_description_reply e = Inr u"
    "iceResolver (icecandidate_events e) [] = Some c" by blast
  define w1 where "w1 = addIceCandidateListener pc (setLocalDescription pc sdp w)"
  have a: "startWebRtc_answer e pc (sdp @ c) s w1 = (out, s', w')"
    using assms(1) r by (simp add: startWebRtc_offer_def w1_def)
  obtain cs rest where cs: "icecandidate_events e = map Some cs @ None # rest" "c = candidate_lines cs"
    using iceResolver_Some [OF r(3)] by auto
  have w1: "events w1 = events w" "video w1 = video w" "streams w1 = streams w" "tracks w1 = tracks w"
    "length (pcs w1) = length (pcs w)"
    "pc_track_listener (pcs w1 ! pc) = pc_track_listener (pcs w ! pc)"
    "pc_closed (pcs w1 ! pc) = pc_closed (pcs w ! pc)"
    using assms(2) by (simp_all add: w1_def prim_defs)
  show ?thesis using a cs w1 r(1) by blast
next
  case False
  then have "out \<noteq> Resolved \<and> s' = s \<and> events w' = events w \<and> video w' = video w
          \<and> streams w' = streams w
          \<and> pc_track_listener (pcs w' ! pc) = pc_track_listener (pcs w ! pc)
          \<and> pc_closed (pcs w' ! pc) = pc_closed (pcs w ! pc)"
    using assms
    by (auto simp: startWebRtc_offer_def prim_defs Let_def split: sum.splits option.splits)
  then show ?thesis by blast
qed

lemma refs_from_eq_Cons:
  "(refs_from n xs = r # rs) = (\<exists>y ys. xs = y # ys \<and> r = n \<and> rs = refs_from (Suc n) ys)"
  by (cases xs) auto

lemma audio_frame:
  assumes "startWebRtc_audio e cfg pc s w = (r, s1, w1)" and "pc < length (pcs w)"
  shows "events w1 = events w \<and> video w1 = video w \<and> streams w1 = streams w
     \<and> length (pcs w1) = length (pcs w) \<and> take pc (pcs w1) = take pc (pcs w)
     \<and> pc_configuration (pcs w1 ! pc) = pc_configuration (pcs w ! pc)
     \<and> pc_track_listener (pcs w1 ! pc) = pc_track_listener (pcs w ! pc)
     \<and> pc_closed (pcs w1 ! pc) = pc_closed (pcs w ! pc)
     \<and> take (length (tracks w)) (tracks w1) = tracks w
     \<and> error s1 = error s \<and> peerConnection s1 = peerConnection s
     \<and> remoteStream s1 = remoteStream s \<and> entityid s1 = entityid s"
  using assms
  by (auto simp: startWebRtc_audio_def getMediaTracks_def prim_defs Let_def refs_from_eq_Cons
      split: sum.splits option.splits if_splits list.splits prod.splits track_or_kind.splits)

lemma connection_frame:
  assumes "startWebRtc_connection cfg conf w = (pc, w1)"
  shows "pc = length (pcs w) \<and> length (pcs w1) = Suc (length (pcs w)) \<and> take (length (pcs w)) (pcs w1) = pcs w
     \<and> pc_configuration (pcs w1 ! pc) = conf \<and> pc_transceivers (pcs w1 ! pc) = []
     \<and> pc_track_listener (pcs w1 ! pc) = None \<and> \<not> pc_closed (pcs w1 ! pc)
     \<and> events w1 = events w \<and> video w1 = video w \<and> streams w1 = streams w \<and> tracks w1 = tracks w"
  using assms
  by (auto simp: startWebRtc_connection_def prim_defs Let_def split: if_splits)

lemma video_line_frame:
  assumes "pc < length (pcs w)"
  shows "addTransceiver pc (Kind ''video'') recvonly w = Inr (video_line pc w)"
    "length (pcs (video_line pc w)) = length (pcs w)" "take pc (pcs (video_line pc w)) = take pc (pcs w)"
    "pc_configuration (pcs (video_line pc w) ! pc) = pc_configuration (pcs w ! pc)"
    "pc_transceivers (pcs (video_line pc w) ! pc) =
       pc_transceivers (pcs w ! pc) @ [\<lparr>seed = Kind ''video'', dir = recvonly\<rparr>]"
    "pc_track_listener (pcs (video_line pc w) ! pc) = pc_track_listener (pcs w ! pc)"
    "pc_closed (pcs (video_line pc w) ! pc) = pc_closed (pcs w ! pc)"
    "events (video_line pc w) = events w" "video (video_line pc w) = video w"
    "streams (video_line pc w) = streams w" "tracks (video_line pc w) = tracks w"
  using assms by (simp_all add: video_line_def prim_defs)

lemma audio_two_way:
  assumes "startWebRtc_audio e (Some c) pc s w = (r, s1, w1)" and "pc < length (pcs w)"
    and "audio_direction c = Some ''sendrecv''" and "media_devices e"
    and "user_media_reply e = Inr (t # ts)"
  shows "r = None \<and> localReturnAudioTrack s1 = Some (length (tracks w))
     \<and> tracks w1 = tracks w @ t\<lparr>t_enabled := False\<rparr> # ts
     \<and> pc_transceivers (pcs w1 ! pc) =
         pc_transceivers (pcs w ! pc) @ [\<lparr>seed = Track (length (tracks w)), dir = sendrecv\<rparr>]"
  using assms
  by (auto simp: startWebRtc_audio_def getMediaTracks_def prim_defs Let_def refs_from_eq_Cons
      split: list.splits prod.splits)

subsection \<open>The whole start\<close>

text \<open>How a start proceeds: the configuration is rejected, the audio transceiver throws, or
  the offer phase runs on the connection with both transceivers.\<close>

lemma startWebRtc_unfold:
  assumes "startWebRtc e s w = (out, s', w')"
  shows "(\<exists>err. resolveConfiguration e = Inl err \<and> out = Rejected err \<and> s' = s\<lparr>error := None\<rparr> \<and> w' = w)
    \<or> (\<exists>cfg conf w2 err. resolveConfiguration e = Inr (cfg, conf)
          \<and> startWebRtc_connection cfg conf w = (length (pcs w), w2)
          \<and> startWebRtc_audio e cfg (length (pcs w)) (s\<lparr>error := None\<rparr>) w2 = (Some err, s', w')
          \<and> out = Rejected err)
    \<or> (\<exists>cfg conf w2 s2 w3. resolveConfiguration e = Inr (cfg, conf)
          \<and> startWebRtc_connection cfg conf w = (length (pcs w), w2)
          \<and> startWebRtc_audio e cfg (length (pcs w)) (s\<lparr>error := None\<rparr>) w2 = (None, s2, w3)
          \<and> startWebRtc_offer e (length (pcs w)) s2 (video_line (length (pcs w)) w3) = (out, s', w'))"
proof (cases "resolveConfiguration e")
  case (Inl err)
  then show ?thesis using assms by (simp add: startWebRtc_def)
next
  case (Inr p)
  obtain cfg conf where p: "p = (cfg, conf)" by (cases p)
  obtain pc w2 where c: "startWebRtc_connection cfg conf w = (pc, w2)"
    by (cases "startWebRtc_connection cfg conf w")
  have pc: "pc = length (pcs w)" "length (pcs w2) = Suc (length (pcs w))"
    using connection_frame [OF c] by simp_all
  obtain r s2 w3 where a: "startWebRtc_audio e cfg pc (s\<lparr>error := None\<rparr>) w2 = (r, s2, w3)"
    by (cases "startWebRtc_audio e cfg pc (s\<lparr>error := None\<rparr>) w2")
  have l3: "pc < length (pcs w3)" using audio_frame [OF a] pc by simp
  show ?thesis
  proof (cases r)
    case None
    then have "startWebRtc_offer e pc s2 (video_line pc w3) = (out, s', w')"
      using assms Inr p c a video_line_frame(1) [OF l3] by (simp add: startWebRtc_def)
    then show ?thesis using Inr p c a None pc(1) by blast
  next
    case (Some err)
    then have "out = Rejected err \<and> s' = s2 \<and> w' = w3"
      using assms Inr p c a by (auto simp add: startWebRtc_def)
    then show ?thesis using Inr p c a Some pc(1) by blast
  qed
qed

lemma take_chain:
  assumes "take (length xs) ys = xs" and "take (length ys) zs = ys"
  shows "take (length xs) zs = xs"
proof -
  have "length xs \<le> length ys"
    using arg_cong [OF assms(1), of length] by simp
  then have "take (length xs) zs = take (length xs) (take (length ys) zs)"
    by (simp add: min_def)
  then show ?thesis using assms by simp
qed

lemma startWebRtc_frame:
  assumes "startWebRtc e s w = (out, s', w')"
  shows "take (length (pcs w)) (pcs w') = pcs w \<and> take (length (tracks w)) (tracks w') = tracks w
     \<and> take (length (streams w)) (streams w') = streams w \<and> entityid s' = entityid s"
  using startWebRtc_unfold [OF assms]
proof (elim disjE exE conjE)
  fix err
  assume "s' = s\<lparr>error := None\<rparr>" "w' = w"
  then show ?thesis by simp
next
  fix cfg conf w2 err
  assume c: "startWebRtc_connection cfg conf w = (length (pcs w), w2)"
    and a: "startWebRtc_audio e cfg (length (pcs w)) (s\<lparr>error := None\<rparr>) w2 = (Some err, s', w')"
  have l: "length (pcs w) < length (pcs w2)" using connection_frame [OF c] by simp
  show ?thesis using connection_frame [OF c] audio_frame [OF a l] by simp
next
  fix cfg conf w2 s2 w3
  assume c: "startWebRtc_connection cfg conf w = (length (pcs w), w2)"
    and a: "startWebRtc_audio e cfg (length (pcs w)) (s\<lparr>error := None\<rparr>) w2 = (None, s2, w3)"
    and b: "startWebRtc_offer e (length (pcs w)) s2 (video_line (length (pcs w)) w3) = (out, s', w')"
  have l: "length (pcs w) < length (pcs w2)" using connection_frame [OF c] by simp
  have l3: "length (pcs w) < length (pcs w3)" using audio_frame [OF a l] l by simp
  have l4: "length (pcs w) < length (pcs (video_line (length (pcs w)) w3))"
    using video_line_frame(2) [OF l3] l3 by simp
  note A = audio_frame [OF a l] and B = offer_frame [OF b l4] and C = connection_frame [OF c]
    and V = video_line_frame [OF l3]
  have "take (length (tracks w)) (tracks w3) = tracks w" using A C by simp
  moreover have "take (length (tracks w3)) (tracks w') = tracks w3" using B V by simp
  ultimately have t: "take (length (tracks w)) (tracks w') = tracks w" by (rule take_chain)
  show ?thesis using t A B C V by simp
qed

lemma startWebRtc_cases:
  assumes "startWebRtc e s w = (out, s', w')"
  shows "(out \<noteq> Resolved \<and> events w' = events w \<and> video w' = video w \<and> streams w' = streams w
          \<and> peerConnection s' = peerConnection s \<and> remoteStream s' = remoteStream s \<and> error s' = None)
    \<or> (\<exists>sdp cs rest s1 w1. offer_reply e = Inr sdp \<and> icecandidate_events e = map Some cs @ None # rest
          \<and> startWebRtc_answer e (length (pcs w)) (sdp @ candidate_lines cs) s1 w1 = (out, s', w')
          \<and> events w1 = events w \<and> video w1 = video w \<and> streams w1 = streams w
          \<and> length (pcs w1) = Suc (length (pcs w))
          \<and> pc_track_listener (pcs w1 ! length (pcs w)) = None \<and> \<not> pc_closed (pcs w1 ! length (pcs w))
          \<and> error s1 = None \<and> peerConnection s1 = peerConnection s \<and> remoteStream s1 = remoteStream s
          \<and> entityid s1 = entityid s)"
  using startWebRtc_unfold [OF assms]
proof (elim disjE exE conjE)
  fix err
  assume "out = Rejected err" "s' = s\<lparr>error := None\<rparr>" "w' = w"
  then show ?thesis by simp
next
  fix cfg conf w2 err
  assume c: "startWebRtc_connection cfg conf w = (length (pcs w), w2)"
    and a: "startWebRtc_audio e cfg (length (pcs w)) (s\<lparr>error := None\<rparr>) w2 = (Some err, s', w')"
    and o: "out = Rejected err"
  have l: "length (pcs w) < length (pcs w2)" using connection_frame [OF c] by simp
  show ?thesis using connection_frame [OF c] audio_frame [OF a l] o by simp
next
  fix cfg conf w2 s2 w3
  assume c: "startWebRtc_connection cfg conf w = (length (pcs w), w2)"
    and a: "startWebRtc_audio e cfg (length (pcs w)) (s\<lparr>error := None\<rparr>) w2 = (None, s2, w3)"
    and b: "startWebRtc_offer e (length (pcs w)) s2 (video_line (length (pcs w)) w3) = (out, s', w')"
  have l: "length (pcs w) < length (pcs w2)" using connection_frame [OF c] by simp
  have l3: "length (pcs w) < length (pcs w3)" using audio_frame [OF a l] l by simp
  have l4: "length (pcs w) < length (pcs (video_line (length (pcs w)) w3))"
    using video_line_frame(2) [OF l3] l3 by simp
  note A = audio_frame [OF a l] and C = connection_frame [OF c] and V = video_line_frame [OF l3]
  from offer_cases [OF b l4] show ?thesis
  proof (elim disjE exE conjE)
    assume "out \<noteq> Resolved" "s' = s2" "events w' = events (video_line (length (pcs w)) w3)"
      "video w' = video (video_line (length (pcs w)) w3)"
      "streams w' = streams (video_line (length (pcs w)) w3)"
    then show ?thesis using A C V by simp
  next
    fix sdp cs rest w1
    assume r: "offer_reply e = Inr sdp" "icecandidate_events e = map Some cs @ None # rest"
      "startWebRtc_answer e (length (pcs w)) (sdp @ candidate_lines cs) s2 w1 = (out, s', w')"
      and w1: "events w1 = events (video_line (length (pcs w)) w3)"
      "video w1 = video (video_line (length (pcs w)) w3)"
      "streams w1 = streams (video_line (length (pcs w)) w3)"
      "length (pcs w1) = length (pcs (video_line (length (pcs w)) w3))"
      "pc_track_listener (pcs w1 ! length (pcs w)) =
         pc_track_listener (pcs (video_line (length (pcs w)) w3) ! length (pcs w))"
      "pc_closed (pcs w1 ! length (pcs w)) = pc_closed (pcs (video_line (length (pcs w)) w3) ! length (pcs w))"
    have "events w1 = events w \<and> video w1 = video w \<and> streams w1 = streams w
          \<and> length (pcs w1) = Suc (length (pcs w))
          \<and> pc_track_listener (pcs w1 ! length (pcs w)) = None \<and> \<not> pc_closed (pcs w1 ! length (pcs w))
          \<and> error s2 = None \<and> peerConnection s2 = peerConnection s \<and> remoteStream s2 = remoteStream s
          \<and> entityid s2 = entityid s"
      using w1 A C V by simp
    then show ?thesis using r by blast
  qed
qed

text \<open>The events of a start: none, the offer and the closing of the new connection, or
  the offer, the resolution of \<^verbatim>\<open>setRemoteDescription\<close> and, before and after it, the
  assignments of the track events.\<close>

lemma startWebRtc_events:
  assumes "startWebRtc e s w = (out, s', w')"
  shows "(new_events w w' = [] \<and> peerConnection s' = peerConnection s \<and> video w' = video w)
    \<or> (\<exists>sdp. new_events w w' =
            [HandleWebRtcOffer (entityid s) sdp, PeerConnectionClosed (length (pcs w))]
          \<and> peerConnection s' = peerConnection s \<and> video w' = video w \<and> \<not> answer_applies e)
    \<or> (\<exists>sdp as1 as2. new_events w w' =
            HandleWebRtcOffer (entityid s) sdp # as1 @ RemoteDescriptionApplied (length (pcs w)) # as2
          \<and> only_assignments as1 \<and> only_assignments as2
          \<and> answer_applies e \<and> peerConnection s' = Some (length (pcs w)))"
  using startWebRtc_cases [OF assms]
proof (elim disjE exE conjE)
  assume "events w' = events w" "video w' = video w" "peerConnection s' = peerConnection s"
  then show ?thesis by (simp add: new_events_def)
next
  fix sdp cs rest s1 w1
  assume a: "startWebRtc_answer e (length (pcs w)) (sdp @ candidate_lines cs) s1 w1 = (out, s', w')"
    and w1: "events w1 = events w" "video w1 = video w"
    and s1: "peerConnection s1 = peerConnection s" "entityid s1 = entityid s"
  from answer_events [OF a] show ?thesis
  proof (elim disjE exE conjE)
    assume "events w' = events w1 @
        [HandleWebRtcOffer (entityid s1) (sdp @ candidate_lines cs), PeerConnectionClosed (length (pcs w))]"
      "peerConnection s' = peerConnection s1" "video w' = video w1" "\<not> answer_applies e"
    then have "new_events w w' =
        [HandleWebRtcOffer (entityid s) (sdp @ candidate_lines cs), PeerConnectionClosed (length (pcs w))]
      \<and> peerConnection s' = peerConnection s \<and> video w' = video w \<and> \<not> answer_applies e"
      using w1 s1 by (simp add: new_events_def)
    then show ?thesis by blast
  next
    fix as1 as2
    assume "events w' = events w1 @ HandleWebRtcOffer (entityid s1) (sdp @ candidate_lines cs) #
        as1 @ RemoteDescriptionApplied (length (pcs w)) # as2"
      "only_assignments as1" "only_assignments as2" "answer_applies e"
      "peerConnection s' = Some (length (pcs w))"
    then have "new_events w w' = HandleWebRtcOffer (entityid s) (sdp @ candidate_lines cs) #
        as1 @ RemoteDescriptionApplied (length (pcs w)) # as2
      \<and> only_assignments as1 \<and> only_assignments as2 \<and> answer_applies e
      \<and> peerConnection s' = Some (length (pcs w))"
      using w1 s1 by (simp add: new_events_def)
    then show ?thesis by blast
  qed
qed

text \<open>What the connection looks like at the end of a start whose configuration was resolved.\<close>

lemma startWebRtc_setup:
  assumes "startWebRtc e s w = (out, s', w')" and "resolveConfiguration e = Inr (cfg, conf)"
  shows "\<exists>w2 r s2 w3. startWebRtc_connection cfg conf w = (length (pcs w), w2)
     \<and> startWebRtc_audio e cfg (length (pcs w)) (s\<lparr>error := None\<rparr>) w2 = (r, s2, w3)
     \<and> length (pcs w') = Suc (length (pcs w))
     \<and> pc_configuration (pcs w' ! length (pcs w)) = conf
     \<and> localReturnAudioTrack s' = localReturnAudioTrack s2
     \<and> take (length (tracks w3)) (tracks w') = tracks w3
     \<and> pc_transceivers (pcs w' ! length (pcs w)) =
         pc_transceivers (pcs w3 ! length (pcs w)) @
           (if r = None then [\<lparr>seed = Kind ''video'', dir = recvonly\<rparr>] else [])"
  using startWebRtc_unfold [OF assms(1)]
proof (elim disjE exE conjE)
  fix err
  assume "resolveConfiguration e = Inl err"
  then show ?thesis using assms(2) by simp
next
  fix cfg' conf' w2 err
  assume "resolveConfiguration e = Inr (cfg', conf')"
  then have eq: "cfg' = cfg" "conf' = conf" using assms(2) by simp_all
  assume c: "startWebRtc_connection cfg' conf' w = (length (pcs w), w2)"
    and a: "startWebRtc_audio e cfg' (length (pcs w)) (s\<lparr>error := None\<rparr>) w2 = (Some err, s', w')"
  have l: "length (pcs w) < length (pcs w2)" using connection_frame [OF c] by simp
  have "length (pcs w') = Suc (length (pcs w)) \<and> pc_configuration (pcs w' ! length (pcs w)) = conf"
    using connection_frame [OF c] audio_frame [OF a l] eq by simp
  then show ?thesis using c a eq by auto
next
  fix cfg' conf' w2 s2 w3
  assume "resolveConfiguration e = Inr (cfg', conf')"
  then have eq: "cfg' = cfg" "conf' = conf" using assms(2) by simp_all
  assume c: "startWebRtc_connection cfg' conf' w = (length (pcs w), w2)"
    and a: "startWebRtc_audio e cfg' (length (pcs w)) (s\<lparr>error := None\<rparr>) w2 = (None, s2, w3)"
    and b: "startWebRtc_offer e (length (pcs w)) s2 (video_line (length (pcs w)) w3) = (out, s', w')"
  have l: "length (pcs w) < length (pcs w2)" using connection_frame [OF c] by simp
  have l3: "length (pcs w) < length (pcs w3)" using audio_frame [OF a l] l by simp
  have l4: "length (pcs w) < length (pcs (video_line (length (pcs w)) w3))"
    using video_line_frame(2) [OF l3] l3 by simp
  note A = audio_frame [OF a l] and B = offer_frame [OF b l4] and C = connection_frame [OF c]
    and V = video_line_frame [OF l3]
  have "length (pcs w') = Suc (length (pcs w))
     \<and> pc_configuration (pcs w' ! length (pcs w)) = conf
     \<and> localReturnAudioTrack s' = localReturnAudioTrack s2
     \<and> take (length (tracks w3)) (tracks w') = tracks w3
     \<and> pc_transceivers (pcs w' ! length (pcs w)) =
         pc_transceivers (pcs w3 ! length (pcs w)) @ [\<lparr>seed = Kind ''video'', dir = recvonly\<rparr>]"
    using A B C V eq by simp
  then show ?thesis using c a eq by auto
qed

lemma resolve_empty:
  assumes "no_transport_configuration e" and "no_fallback_settings e"
  shows "\<exists>cfg. resolveConfiguration e = Inr (cfg, empty_configuration)"
  using assms
  by (auto simp: no_transport_configuration_def no_fallback_settings_def resolveConfiguration_def
      fetchPeerConfiguration_def split: sum.splits option.splits)


subsection \<open>Restart\<close>

lemma startWebRtc_quiet:
  assumes "startWebRtc e s w = (out, s', w')"
  shows "releases (new_events w w') = [] \<and> stopped (new_events w w') = []
     \<and> (closed_pcs (new_events w w') = [] \<or> closed_pcs (new_events w w') = [length (pcs w)])"
  using startWebRtc_events [OF assms]
  by (auto simp: only_assignments_silent releases_append stopped_append closed_pcs_append)

subsection \<open>Cleanup\<close>

lemma track_stops_silent:
  "releases (map TrackStopped ts) = [] \<and> closed_pcs (map TrackStopped ts) = []
   \<and> offers (map TrackStopped ts) = []"
  by (induction ts) auto

lemma fold_stopTrack:
  "pcs (fold stopTrack ts w) = pcs w \<and> video (fold stopTrack ts w) = video w
   \<and> streams (fold stopTrack ts w) = streams w
   \<and> events (fold stopTrack ts w) = events w @ map TrackStopped ts"
  by (induction ts arbitrary: w) (simp_all add: prim_defs)

lemmas cleanUp_defs = cleanUp_def cleanUp_remoteStream_def cleanUp_localTrack_def cleanUp_video_def
  cleanUp_peerConnection_def getTracks_def stop_def close_def resetVideo_def

lemma cleanUp_result:
  assumes "cleanUp r s w = (out, s', w')"
  shows "out = (if peerConnection s = None then Resolved
                else case r of Inl err \<Rightarrow> Rejected err | Inr u \<Rightarrow> Resolved)
     \<and> remoteStream s' = None \<and> peerConnection s' = None
     \<and> releases (new_events w w') = (case peerConnection s of None \<Rightarrow> [] | Some pc \<Rightarrow> [entityid s])
     \<and> closed_pcs (new_events w w') = (case peerConnection s of None \<Rightarrow> [] | Some pc \<Rightarrow> [pc])
     \<and> offers (new_events w w') = []"
  using assms
  by (auto simp: cleanUp_defs prim_defs new_events_def fold_stopTrack track_stops_silent
      releases_append closed_pcs_append offers_append
      split: option.splits sum.splits if_splits)

lemma cleanUp_idle:
  assumes "cleanUp r s w = (out, s', w')" and "remoteStream s = None" and "peerConnection s = None"
  shows "s' = s"
  using assms
  by (auto simp: cleanUp_defs split: option.splits sum.splits if_splits)

subsection \<open>The concrete runs, evaluated\<close>

lemmas run_defs = startWebRtc_def startWebRtc_connection_def startWebRtc_audio_def
  startWebRtc_offer_def startWebRtc_answer_def resolveConfiguration_def fetchPeerConfiguration_def
  getMediaTracks_def applyRemoteDescription_def onTrack_def updated_def lookup_def Let_def
  empty_configuration_def TypeError_def

lemmas scenario_defs = fresh_def page_def two_way_def microphone_def camera_video_def
  signaling_down_def answer_refused_def capture_denied_def unconfigured_def offer_sent_def
  offered_def connected_def streaming_def renamed_def candidate_lines_def blank_page_def

lemma run_projections: "r = (fst r, state_of r, world_of r)"
  by (simp add: state_of_def world_of_def)

lemma run_two_way: "startWebRtc two_way fresh page = (Resolved, connected, streaming)"
  by (simp add: run_defs prim_defs scenario_defs)

lemma run_signaling_down:
  "startWebRtc signaling_down fresh page =
    (Resolved,
     fresh\<lparr>error := Some ''Failed to start WebRTC stream: Connection lost'',
           localReturnAudioTrack := Some 0\<rparr>,
     page\<lparr>pcs := [offered\<lparr>pc_closed := True\<rparr>],
          tracks := [microphone\<lparr>t_enabled := False\<rparr>],
          events := [offer_sent, PeerConnectionClosed 0]\<rparr>)"
  by (simp add: run_defs prim_defs scenario_defs)

lemma run_answer_refused:
  "startWebRtc answer_refused fresh page =
    (Resolved,
     fresh\<lparr>error := Some ''Failed to connect WebRTC stream: Bad answer'',
           remoteStream := Some 0, localReturnAudioTrack := Some 0\<rparr>,
     page\<lparr>pcs := [offered\<lparr>pc_track_listener := Some 0, pc_closed := True\<rparr>],
          tracks := [microphone\<lparr>t_enabled := False\<rparr>],
          streams := [[]],
          events := [offer_sent, PeerConnectionClosed 0]\<rparr>)"
  by (simp add: run_defs prim_defs scenario_defs)

lemma run_restart:
  "restart =
    (Resolved,
     renamed\<lparr>peerConnection := Some 1, remoteStream := Some 1, localReturnAudioTrack := Some 2\<rparr>,
     streaming\<lparr>pcs := pcs streaming @
                  [offered\<lparr>pc_transceivers := [\<lparr>seed = Track 2, dir = sendrecv\<rparr>,
                                                \<lparr>seed = Kind ''video'', dir = recvonly\<rparr>],
                           pc_remote_description := Some ''v=1'',
                           pc_track_listener := Some 1\<rparr>],
               tracks := tracks streaming @ [microphone\<lparr>t_enabled := False\<rparr>, camera_video],
               streams := [[1], [3]],
               video := Some \<lparr>srcObject = Some 1, src = None, loads = 0\<rparr>,
               events := events streaming @
                  [HandleWebRtcOffer ''camera.yard'' (''v=0'' @ candidate_lines [''c1'', ''c2'']),
                   SrcObjectAssigned 1, RemoteDescriptionApplied 1]\<rparr>)"
  by (simp add: restart_def run_defs prim_defs scenario_defs)

lemma run_aborted_restart:
  "aborted_restart =
    (Resolved,
     renamed\<lparr>error := Some ''Failed to start WebRTC stream: Connection lost'',
             localReturnAudioTrack := Some 2\<rparr>,
     streaming\<lparr>pcs := pcs streaming @
                  [offered\<lparr>pc_transceivers := [\<lparr>seed = Track 2, dir = sendrecv\<rparr>,
                                                \<lparr>seed = Kind ''video'', dir = recvonly\<rparr>],
                           pc_closed := True\<rparr>],
               tracks := tracks streaming @ [microphone\<lparr>t_enabled := False\<rparr>],
               events := events streaming @
                  [HandleWebRtcOffer ''camera.yard'' (''v=0'' @ candidate_lines [''c1'', ''c2'']),
                   PeerConnectionClosed 1]\<rparr>)"
  by (simp add: aborted_restart_def run_defs prim_defs scenario_defs)

lemma page_fields:
  "pcs page = []" "tracks page = []" "streams page = []" "events page = []"
  "video page = Some \<lparr>srcObject = None, src = None, loads = 0\<rparr>"
  by (simp_all add: page_def)

lemma fresh_fields:
  "entityid fresh = ''camera.door''" "error fresh = None" "peerConnection fresh = None"
  "remoteStream fresh = None" "localReturnAudioTrack fresh = None"
  by (simp_all add: fresh_def)

lemma streaming_fields:
  "length (pcs streaming) = 1" "length (tracks streaming) = 2" "length (streams streaming) = 1"
  "length (events streaming) = 3" "video streaming \<noteq> None"
  by (simp_all add: streaming_def)

section \<open>The claims\<close>


subsection \<open>Failure of the signaling exchange\<close>

text \<open>
  C1. When the offer was submitted in a start and the backend rejects it, the start
  ends with the error message set (so the alert is what is rendered), with the new peer
  connection closed and without a track listener on it; no stream was assigned to the
  video element, the video element is as before, no connection or remote stream was
  recorded, and the offer was sent once (no retry).
\<close>

theorem signaling_failure_aborts:
  assumes "startWebRtc e s w = (out, s', w')"
    and "offers (new_events w w') \<noteq> []"
    and "answer_reply e = Inl err"
  shows "out = Resolved
     \<and> error s' = Some (''Failed to start WebRTC stream: '' @ message err)
     \<and> render s' w' = Alert (''Failed to start WebRTC stream: '' @ message err)
     \<and> map_option pc_closed (lookup (pcs w') (length (pcs w))) = Some True
     \<and> map_option pc_track_listener (lookup (pcs w') (length (pcs w))) = Some None
     \<and> attached (new_events w w') = [] \<and> video w' = video w
     \<and> peerConnection s' = peerConnection s \<and> remoteStream s' = remoteStream s
     \<and> length (offers (new_events w w')) = 1"
  using startWebRtc_cases [OF assms(1)]
proof (elim disjE exE conjE)
  assume "events w' = events w"
  then show ?thesis using assms(2) by (simp add: new_events_def)
next
  fix sdp cs rest s1 w1
  assume a: "startWebRtc_answer e (length (pcs w)) (sdp @ candidate_lines cs) s1 w1 = (out, s', w')"
    and w1: "events w1 = events w" "video w1 = video w" "length (pcs w1) = Suc (length (pcs w))"
      "pc_track_listener (pcs w1 ! length (pcs w)) = None"
    and s1: "peerConnection s1 = peerConnection s" "remoteStream s1 = remoteStream s"
  have "out = Resolved"
    and s': "s' = s1\<lparr>error := Some (''Failed to start WebRTC stream: '' @ message err)\<rparr>"
    and w': "w' = closePeerConnection (length (pcs w))
               (emit (HandleWebRtcOffer (entityid s1) (sdp @ candidate_lines cs)) w1)"
    using a assms(3) by (auto simp: startWebRtc_answer_def Let_def)
  then show ?thesis using w1 s1
    by (simp add: prim_defs new_events_def render_def lookup_def)
qed

theorem signaling_failure_aborts_witness:
  "offers (new_events page (world_of (startWebRtc signaling_down fresh page))) \<noteq> []
   \<and> answer_reply signaling_down = Inl (JsError ''Error'' ''Connection lost'')
   \<and> fst (startWebRtc signaling_down fresh page) = Resolved
   \<and> error (state_of (startWebRtc signaling_down fresh page)) =
       Some ''Failed to start WebRTC stream: Connection lost''
   \<and> render (state_of (startWebRtc signaling_down fresh page))
         (world_of (startWebRtc signaling_down fresh page)) =
       Alert ''Failed to start WebRTC stream: Connection lost''
   \<and> map_option pc_closed (lookup (pcs (world_of (startWebRtc signaling_down fresh page))) 0) =
       Some True
   \<and> map_option pc_track_listener
         (lookup (pcs (world_of (startWebRtc signaling_down fresh page))) 0) = Some None
   \<and> attached (new_events page (world_of (startWebRtc signaling_down fresh page))) = []"
proof -
  have h1: "offers (new_events page (world_of (startWebRtc signaling_down fresh page))) \<noteq> []"
    by (simp add: run_signaling_down world_of_def new_events_def page_fields offer_sent_def)
  have h2: "answer_reply signaling_down = Inl (JsError ''Error'' ''Connection lost'')"
    by (simp add: signaling_down_def)
  show ?thesis
    using signaling_failure_aborts [of signaling_down fresh page, OF run_projections h1 h2] h1 h2
    by (simp add: page_fields)
qed

subsection \<open>Two-way audio\<close>

text \<open>
  C2. When the configuration of the backend asks for the audio direction
  \<^verbatim>\<open>sendrecv\<close>, the media devices are there and the capture gives at least one audio
  track, the new peer connection has the transceivers of the first captured track
  (direction sendrecv) and of the video (receive-only), so exactly one audio transceiver;
  the widget holds that track, and the track is disabled: the microphone starts muted.
\<close>

theorem two_way_audio_transceiver:
  assumes "startWebRtc e s w = (out, s', w')"
    and "resolveConfiguration e = Inr (Some c, conf)"
    and "audio_direction c = Some ''sendrecv''" and "media_devices e"
    and "user_media_reply e = Inr (t # ts)" and "t_kind t = ''audio''"
  shows "map_option pc_transceivers (lookup (pcs w') (length (pcs w))) =
           Some [\<lparr>seed = Track (length (tracks w)), dir = sendrecv\<rparr>,
                 \<lparr>seed = Kind ''video'', dir = recvonly\<rparr>]
     \<and> audio_transceivers w' (length (pcs w)) = [\<lparr>seed = Track (length (tracks w)), dir = sendrecv\<rparr>]
     \<and> localReturnAudioTrack s' = Some (length (tracks w))
     \<and> lookup (tracks w') (length (tracks w)) = Some (t\<lparr>t_enabled := False\<rparr>)
     \<and> \<not> enabled w' (length (tracks w))"
proof -
  obtain w2 r s2 w3 where c: "startWebRtc_connection (Some c) conf w = (length (pcs w), w2)"
    and a: "startWebRtc_audio e (Some c) (length (pcs w)) (s\<lparr>error := None\<rparr>) w2 = (r, s2, w3)"
    and f: "length (pcs w') = Suc (length (pcs w))"
      "localReturnAudioTrack s' = localReturnAudioTrack s2"
      "take (length (tracks w3)) (tracks w') = tracks w3"
      "pc_transceivers (pcs w' ! length (pcs w)) =
         pc_transceivers (pcs w3 ! length (pcs w)) @
           (if r = None then [\<lparr>seed = Kind ''video'', dir = recvonly\<rparr>] else [])"
    using startWebRtc_setup [OF assms(1,2)] by blast
  have l: "length (pcs w) < length (pcs w2)" using connection_frame [OF c] by simp
  note A = audio_two_way [OF a l assms(3,4,5)] and C = connection_frame [OF c]
  have tr: "pc_transceivers (pcs w' ! length (pcs w)) =
      [\<lparr>seed = Track (length (tracks w)), dir = sendrecv\<rparr>, \<lparr>seed = Kind ''video'', dir = recvonly\<rparr>]"
    using f(4) A C by simp
  have "tracks w3 = tracks w @ t\<lparr>t_enabled := False\<rparr> # ts" using A C by simp
  then have "length (tracks w) < length (tracks w3)"
    and "tracks w3 ! length (tracks w) = t\<lparr>t_enabled := False\<rparr>" by simp_all
  then have tk: "length (tracks w) < length (tracks w')"
    "tracks w' ! length (tracks w) = t\<lparr>t_enabled := False\<rparr>"
    using f(3) by (metis length_take min_less_iff_conj, metis nth_take)
  show ?thesis using tr tk f(1,2) A C assms(6)
    by (simp add: lookup_def audio_transceivers_def transceiver_kind_def enabled_def)
qed

theorem two_way_audio_transceiver_witness:
  "resolveConfiguration two_way =
     Inr (Some \<lparr>rtc_configuration = None, create_data_channel = Some True,
                 audio_direction = Some ''sendrecv''\<rparr>, empty_configuration)
   \<and> media_devices two_way \<and> user_media_reply two_way = Inr [microphone]
   \<and> t_kind microphone = ''audio''
   \<and> map_option pc_transceivers (lookup (pcs (world_of (startWebRtc two_way fresh page))) 0) =
       Some [\<lparr>seed = Track 0, dir = sendrecv\<rparr>, \<lparr>seed = Kind ''video'', dir = recvonly\<rparr>]
   \<and> audio_transceivers (world_of (startWebRtc two_way fresh page)) 0 =
       [\<lparr>seed = Track 0, dir = sendrecv\<rparr>]
   \<and> localReturnAudioTrack (state_of (startWebRtc two_way fresh page)) = Some 0
   \<and> lookup (tracks (world_of (startWebRtc two_way fresh page))) 0 =
       Some (microphone\<lparr>t_enabled := False\<rparr>)
   \<and> \<not> enabled (world_of (startWebRtc two_way fresh page)) 0"
proof -
  have h1: "resolveConfiguration two_way =
     Inr (Some \<lparr>rtc_configuration = None, create_data_channel = Some True,
                 audio_direction = Some ''sendrecv''\<rparr>, empty_configuration)"
    by (simp add: resolveConfiguration_def fetchPeerConfiguration_def two_way_def)
  have h2: "audio_direction \<lparr>rtc_configuration = None, create_data_channel = Some True,
                 audio_direction = Some ''sendrecv''\<rparr> = Some ''sendrecv''"
    by simp
  have h3: "media_devices two_way" and h4: "user_media_reply two_way = Inr [microphone]"
    by (simp_all add: two_way_def)
  have h5: "t_kind microphone = ''audio''" by (simp add: microphone_def)
  show ?thesis
    using two_way_audio_transceiver [of two_way fresh page, OF run_projections h1 h2 h3 h4 h5] h1 h3 h4 h5
    by (simp add: page_fields)
qed

subsection \<open>Failure of the local capture\<close>

text \<open>
  C3. The claim asks for a receive-only audio transceiver when the capture fails. On a
  fresh widget, with the audio direction \<^verbatim>\<open>sendrecv\<close>, the media devices there and
  the capture rejected, \<^verbatim>\<open>getMediaTracks\<close> gives no track, the local track field stays
  unset and line 154 hands \<^verbatim>\<open>undefined\<close> to \<^verbatim>\<open>addTransceiver\<close> with the direction
  sendrecv: the call throws, the start is rejected with that TypeError, and the peer
  connection is left open without any transceiver and without an error message.
\<close>

theorem capture_failure_throws:
  "user_media_reply capture_denied = Inl (JsError ''NotAllowedError'' ''Permission denied'')
   \<and> getMediaTracks capture_denied ''user'' page = ([], page)
   \<and> fst (startWebRtc capture_denied fresh page) =
       Rejected (TypeError ''The provided value is not a valid track kind'')
   \<and> map_option pc_transceivers (lookup (pcs (world_of (startWebRtc capture_denied fresh page))) 0) =
       Some []
   \<and> audio_transceivers (world_of (startWebRtc capture_denied fresh page)) 0 = []
   \<and> map_option pc_closed (lookup (pcs (world_of (startWebRtc capture_denied fresh page))) 0) =
       Some False
   \<and> error (state_of (startWebRtc capture_denied fresh page)) = None
   \<and> localReturnAudioTrack (state_of (startWebRtc capture_denied fresh page)) = None"
  by (simp add: run_defs prim_defs scenario_defs state_of_def world_of_def audio_transceivers_def)

subsection \<open>No configuration\<close>

text \<open>
  C4. When the backend gives no transport configuration and the fallback gives no
  settings (the component is not loaded, there are no settings, or no stun server), the
  peer connection of the start is constructed with the empty configuration, which has no
  ICE servers.
\<close>

theorem empty_configuration_without_settings:
  assumes "startWebRtc e s w = (out, s', w')"
    and "no_transport_configuration e" and "no_fallback_settings e"
  shows "map_option pc_configuration (lookup (pcs w') (length (pcs w))) = Some empty_configuration
     \<and> map_option (iceServers \<circ> pc_configuration) (lookup (pcs w') (length (pcs w))) = Some None"
proof -
  obtain cfg where "resolveConfiguration e = Inr (cfg, empty_configuration)"
    using resolve_empty [OF assms(2,3)] by blast
  from startWebRtc_setup [OF assms(1) this] show ?thesis
    by (auto simp: lookup_def empty_configuration_def)
qed

theorem empty_configuration_without_settings_witness:
  "no_transport_configuration unconfigured \<and> no_fallback_settings unconfigured
   \<and> map_option pc_configuration (lookup (pcs (world_of (startWebRtc unconfigured fresh page))) 0) =
       Some empty_configuration
   \<and> map_option (iceServers \<circ> pc_configuration)
       (lookup (pcs (world_of (startWebRtc unconfigured fresh page))) 0) = Some None"
proof -
  have h1: "no_transport_configuration unconfigured"
    by (simp add: no_transport_configuration_def unconfigured_def two_way_def)
  have h2: "no_fallback_settings unconfigured"
    by (simp add: no_fallback_settings_def unconfigured_def two_way_def)
  show ?thesis
    using empty_configuration_without_settings [of unconfigured fresh page, OF run_projections h1 h2] h1 h2
    by (simp add: page_fields)
qed

subsection \<open>Failure of the remote description\<close>

text \<open>
  C5. When the offer was answered and the browser rejects the answer as the remote
  description, the start ends with the error message set (so the alert is rendered in
  place of the video), with the new peer connection closed, and the peer connection field
  of the widget is what it was before the start: the new connection is not recorded.
\<close>

theorem remote_description_failure_aborts:
  assumes "startWebRtc e s w = (out, s', w')"
    and "offers (new_events w w') \<noteq> []"
    and "answer_reply e = Inr answer"
    and "remote_description_reply e = Inl err"
  shows "out = Resolved
     \<and> error s' = Some (''Failed to connect WebRTC stream: '' @ message err)
     \<and> render s' w' = Alert (''Failed to connect WebRTC stream: '' @ message err)
     \<and> map_option pc_closed (lookup (pcs w') (length (pcs w))) = Some True
     \<and> peerConnection s' = peerConnection s
     \<and> attached (new_events w w') = [] \<and> video w' = video w"
  using startWebRtc_cases [OF assms(1)]
proof (elim disjE exE conjE)
  assume "events w' = events w"
  then show ?thesis using assms(2) by (simp add: new_events_def)
next
  fix sdp cs rest s1 w1
  assume a: "startWebRtc_answer e (length (pcs w)) (sdp @ candidate_lines cs) s1 w1 = (out, s', w')"
    and w1: "events w1 = events w" "video w1 = video w" "length (pcs w1) = Suc (length (pcs w))"
    and s1: "peerConnection s1 = peerConnection s"
  have "out = Resolved"
    and s': "s' = s1\<lparr>remoteStream := Some (length (streams w1)),
                     error := Some (''Failed to connect WebRTC stream: '' @ message err)\<rparr>"
    and w': "w' = closePeerConnection (length (pcs w))
               (addTrackListener (length (pcs w)) (length (streams w1))
                 (snd (newMediaStream (emit (HandleWebRtcOffer (entityid s1) (sdp @ candidate_lines cs)) w1))))"
    using a assms(3,4) by (auto simp: startWebRtc_answer_def Let_def newMediaStream_def emit_def)
  then show ?thesis using w1 s1
    by (simp add: prim_defs new_events_def render_def lookup_def)
qed

theorem remote_description_failure_aborts_witness:
  "offers (new_events page (world_of (startWebRtc answer_refused fresh page))) \<noteq> []
   \<and> answer_reply answer_refused = Inr ''v=1''
   \<and> remote_description_reply answer_refused = Inl (JsError ''InvalidAccessError'' ''Bad answer'')
   \<and> fst (startWebRtc answer_refused fresh page) = Resolved
   \<and> error (state_of (startWebRtc answer_refused fresh page)) =
       Some ''Failed to connect WebRTC stream: Bad answer''
   \<and> render (state_of (startWebRtc answer_refused fresh page))
         (world_of (startWebRtc answer_refused fresh page)) =
       Alert ''Failed to connect WebRTC stream: Bad answer''
   \<and> map_option pc_closed (lookup (pcs (world_of (startWebRtc answer_refused fresh page))) 0) =
       Some True
   \<and> peerConnection (state_of (startWebRtc answer_refused fresh page)) = None"
proof -
  have h1: "offers (new_events page (world_of (startWebRtc answer_refused fresh page))) \<noteq> []"
    by (simp add: run_answer_refused world_of_def new_events_def page_fields offer_sent_def)
  have h2: "answer_reply answer_refused = Inr ''v=1''"
    and h3: "remote_description_reply answer_refused =
               Inl (JsError ''InvalidAccessError'' ''Bad answer'')"
    by (simp_all add: answer_refused_def two_way_def)
  show ?thesis
    using remote_description_failure_aborts [of answer_refused fresh page, OF run_projections h1 h2 h3]
      h1 h2 h3
    by (simp add: fresh_fields page_fields)
qed

subsection \<open>Change of the entity identifier\<close>

text \<open>
  C6, as stated, fails: \<^verbatim>\<open>updated\<close> calls \<^verbatim>\<open>_startWebRtc\<close> and nothing else, and
  \<^verbatim>\<open>_startWebRtc\<close> only resets the error message. On the connected widget whose
  identifier changes, after the whole restart the peer connection of the first session is
  still open, its remote track and the local audio track are not stopped, nothing was
  closed and no release was requested from the backend; the fields of the widget now
  name the objects of the second session.
\<close>

theorem restart_keeps_old_session:
  "startWebRtc two_way fresh page = (Resolved, connected, streaming)
   \<and> video streaming \<noteq> None
   \<and> peerConnection renamed = Some 0 \<and> remoteStream renamed = Some 0
   \<and> localReturnAudioTrack renamed = Some 0
   \<and> map_option pc_closed (lookup (pcs (world_of restart)) 0) = Some False
   \<and> map_option t_stopped (lookup (tracks (world_of restart)) 0) = Some False
   \<and> map_option t_stopped (lookup (tracks (world_of restart)) 1) = Some False
   \<and> closed_pcs (new_events streaming (world_of restart)) = []
   \<and> stopped (new_events streaming (world_of restart)) = []
   \<and> releases (new_events streaming (world_of restart)) = []
   \<and> peerConnection (state_of restart) = Some 1"
proof (rule conjI)
  show "startWebRtc two_way fresh page = (Resolved, connected, streaming)"
    by (rule run_two_way)
  show "video streaming \<noteq> None
   \<and> peerConnection renamed = Some 0 \<and> remoteStream renamed = Some 0
   \<and> localReturnAudioTrack renamed = Some 0
   \<and> map_option pc_closed (lookup (pcs (world_of restart)) 0) = Some False
   \<and> map_option t_stopped (lookup (tracks (world_of restart)) 0) = Some False
   \<and> map_option t_stopped (lookup (tracks (world_of restart)) 1) = Some False
   \<and> closed_pcs (new_events streaming (world_of restart)) = []
   \<and> stopped (new_events streaming (world_of restart)) = []
   \<and> releases (new_events streaming (world_of restart)) = []
   \<and> peerConnection (state_of restart) = Some 1"
    by (simp add: run_restart state_of_def world_of_def new_events_def lookup_def
        renamed_def connected_def streaming_def offered_def microphone_def camera_video_def)
qed

text \<open>
  C6, amended. When the widget is updated, the negotiation is started again exactly when
  the identifier changed and the video element is rendered, and it is started without
  any teardown: every peer connection, track and stream of the store is as it was, no
  track is stopped, no release is requested from the backend, and the only connection
  that may be closed is the new one.
\<close>

theorem restart_without_teardown:
  assumes "updated changed e s w = (out, s', w')"
  shows "(out, s', w') = (if ''entityid'' \<in> changed \<and> video w \<noteq> None
                          then startWebRtc e s w else (Resolved, s, w))
     \<and> take (length (pcs w)) (pcs w') = pcs w
     \<and> take (length (tracks w)) (tracks w') = tracks w
     \<and> take (length (streams w)) (streams w') = streams w
     \<and> releases (new_events w w') = [] \<and> stopped (new_events w w') = []
     \<and> (closed_pcs (new_events w w') = [] \<or> closed_pcs (new_events w w') = [length (pcs w)])"
proof (cases "''entityid'' \<in> changed \<and> video w \<noteq> None")
  case True
  then have run: "startWebRtc e s w = (out, s', w')"
    using assms by (auto simp: updated_def)
  show ?thesis
    using True run startWebRtc_frame [OF run] startWebRtc_quiet [OF run] by simp
next
  case False
  then have "out = Resolved \<and> s' = s \<and> w' = w"
    using assms by (auto simp: updated_def split: if_splits)
  then show ?thesis using False by (auto simp: new_events_def)
qed

theorem restart_without_teardown_witness:
  "(fst restart, state_of restart, world_of restart) = startWebRtc two_way renamed streaming
   \<and> take 1 (pcs (world_of restart)) = pcs streaming
   \<and> take 2 (tracks (world_of restart)) = tracks streaming
   \<and> take 1 (streams (world_of restart)) = streams streaming
   \<and> releases (new_events streaming (world_of restart)) = []
   \<and> stopped (new_events streaming (world_of restart)) = []
   \<and> closed_pcs (new_events streaming (world_of restart)) = []"
proof -
  have h: "updated {''entityid''} two_way renamed streaming =
      (fst restart, state_of restart, world_of restart)"
    by (simp add: restart_def state_of_def world_of_def)
  have c: "closed_pcs (new_events streaming (world_of restart)) = []"
    by (simp add: run_restart world_of_def new_events_def scenario_defs)
  show ?thesis
    using restart_without_teardown [OF h] c by (simp add: streaming_fields)
qed

subsection \<open>Cleanup twice\<close>

text \<open>
  C7. In every state, also with no peer connection, no remote stream, no local track and
  no video element, two consecutive cleanups never throw. Each release step is guarded
  against the absent state and ends without an error; the release request goes to the
  backend only when a peer connection is recorded, so in the first call at most, and
  with that request answered the first call resolves; the second call resolves, changes
  no field of the widget, closes nothing and sends no request.
\<close>

theorem cleanUp_twice:
  "\<not> isl (cleanUp_remoteStream s w) \<and> \<not> isl (cleanUp_localTrack s w) \<and> \<not> isl (cleanUp_video w)
   \<and> fst (cleanUp_peerConnection (Inr ()) s w) = Resolved
   \<and> fst (cleanUp (Inr ()) s w) = Resolved
   \<and> fst (cleanUp r2 (state_of (cleanUp (Inr ()) s w)) (world_of (cleanUp (Inr ()) s w))) = Resolved
   \<and> state_of (cleanUp r2 (state_of (cleanUp (Inr ()) s w)) (world_of (cleanUp (Inr ()) s w))) =
       state_of (cleanUp (Inr ()) s w)
   \<and> releases (new_events (world_of (cleanUp (Inr ()) s w))
        (world_of (cleanUp r2 (state_of (cleanUp (Inr ()) s w)) (world_of (cleanUp (Inr ()) s w))))) = []
   \<and> closed_pcs (new_events (world_of (cleanUp (Inr ()) s w))
        (world_of (cleanUp r2 (state_of (cleanUp (Inr ()) s w)) (world_of (cleanUp (Inr ()) s w))))) = []"
proof -
  have steps: "\<not> isl (cleanUp_remoteStream s w)" "\<not> isl (cleanUp_localTrack s w)"
    "\<not> isl (cleanUp_video w)" "fst (cleanUp_peerConnection (Inr ()) s w) = Resolved"
    by (auto simp: cleanUp_remoteStream_def cleanUp_localTrack_def cleanUp_video_def
        cleanUp_peerConnection_def getTracks_def stop_def close_def resetVideo_def)
  note A = cleanUp_result [of "Inr ()" s w, OF run_projections]
  note B = cleanUp_result [of r2 "state_of (cleanUp (Inr ()) s w)" "world_of (cleanUp (Inr ()) s w)",
      OF run_projections]
  have same: "state_of (cleanUp r2 (state_of (cleanUp (Inr ()) s w)) (world_of (cleanUp (Inr ()) s w))) =
       state_of (cleanUp (Inr ()) s w)"
    using cleanUp_idle [of r2 "state_of (cleanUp (Inr ()) s w)" "world_of (cleanUp (Inr ()) s w)",
        OF run_projections] A by simp
  show ?thesis using steps A B same by simp
qed

theorem cleanUp_twice_witness:
  "fst (cleanUp (Inr ()) fresh blank_page) = Resolved
   \<and> fst (cleanUp (Inr ()) (state_of (cleanUp (Inr ()) fresh blank_page))
            (world_of (cleanUp (Inr ()) fresh blank_page))) = Resolved
   \<and> fst (cleanUp (Inr ()) connected streaming) = Resolved
   \<and> fst (cleanUp (Inr ()) (state_of (cleanUp (Inr ()) connected streaming))
            (world_of (cleanUp (Inr ()) connected streaming))) = Resolved"
  using cleanUp_twice [of fresh blank_page "Inr ()"] cleanUp_twice [of connected streaming "Inr ()"]
  by simp

subsection \<open>The offer sent to the backend\<close>



subsection \<open>Order of attachment\<close>




subsection \<open>Release of the stream at the backend\<close>

text \<open>
  C10, as stated, fails in its last part. The connected widget gets another identifier,
  the backend rejects the offer of the restart, and the start is aborted; the peer
  connection recorded is still that of the first session, so the cleanup that follows
  closes it and sends a release request, under the new identifier.
\<close>

theorem cleanup_after_aborted_restart:
  "startWebRtc two_way fresh page = (Resolved, connected, streaming)
   \<and> \<not> answer_applies signaling_down
   \<and> error (state_of aborted_restart) = Some ''Failed to start WebRTC stream: Connection lost''
   \<and> peerConnection (state_of aborted_restart) = Some 0
   \<and> closed_pcs (new_events (world_of aborted_restart)
        (world_of (cleanUp (Inr ()) (state_of aborted_restart) (world_of aborted_restart)))) = [0]
   \<and> releases (new_events (world_of aborted_restart)
        (world_of (cleanUp (Inr ()) (state_of aborted_restart) (world_of aborted_restart)))) =
       [''camera.yard'']"
proof (rule conjI)
  show "startWebRtc two_way fresh page = (Resolved, connected, streaming)"
    by (rule run_two_way)
  show "\<not> answer_applies signaling_down
   \<and> error (state_of aborted_restart) = Some ''Failed to start WebRTC stream: Connection lost''
   \<and> peerConnection (state_of aborted_restart) = Some 0
   \<and> closed_pcs (new_events (world_of aborted_restart)
        (world_of (cleanUp (Inr ()) (state_of aborted_restart) (world_of aborted_restart)))) = [0]
   \<and> releases (new_events (world_of aborted_restart)
        (world_of (cleanUp (Inr ()) (state_of aborted_restart) (world_of aborted_restart)))) =
       [''camera.yard'']"
    by (simp add: run_aborted_restart state_of_def world_of_def new_events_def
        cleanUp_defs prim_defs lookup_def answer_applies_def signaling_down_def
        renamed_def connected_def fresh_def streaming_def offered_def microphone_def
        camera_video_def)
qed

text \<open>
  C10, amended. The cleanup sends the release request exactly when a peer connection is
  recorded, and then closes that connection. A start records its peer connection exactly
  when it sent the offer and neither failure point was met; otherwise the field is what it
  was before the start. So after a start aborted at a failure point on a widget that had
  no peer connection recorded, the cleanup closes nothing and sends no request.
\<close>

theorem release_follows_recorded_connection:
  assumes "startWebRtc e s w = (out, s', w')" and "cleanUp r s' w' = (out2, s'', w'')"
  shows "peerConnection s' = (if offers (new_events w w') \<noteq> [] \<and> answer_applies e
                              then Some (length (pcs w)) else peerConnection s)
     \<and> releases (new_events w' w'') =
         (case peerConnection s' of None \<Rightarrow> [] | Some pc \<Rightarrow> [entityid s'])
     \<and> closed_pcs (new_events w' w'') =
         (case peerConnection s' of None \<Rightarrow> [] | Some pc \<Rightarrow> [pc])
     \<and> (peerConnection s = None \<and> \<not> answer_applies e \<longrightarrow>
          releases (new_events w' w'') = [] \<and> closed_pcs (new_events w' w'') = [])"
proof -
  have rec: "peerConnection s' = (if offers (new_events w w') \<noteq> [] \<and> answer_applies e
                              then Some (length (pcs w)) else peerConnection s)"
    using startWebRtc_events [OF assms(1)] by auto
  show ?thesis using rec cleanUp_result [OF assms(2)] by simp
qed

theorem release_follows_recorded_connection_witness:
  "peerConnection fresh = None \<and> \<not> answer_applies signaling_down
   \<and> peerConnection (state_of (startWebRtc signaling_down fresh page)) = None
   \<and> releases (new_events (world_of (startWebRtc signaling_down fresh page))
        (world_of (cleanUp (Inr ()) (state_of (startWebRtc signaling_down fresh page))
                     (world_of (startWebRtc signaling_down fresh page))))) = []
   \<and> closed_pcs (new_events (world_of (startWebRtc signaling_down fresh page))
        (world_of (cleanUp (Inr ()) (state_of (startWebRtc signaling_down fresh page))
                     (world_of (startWebRtc signaling_down fresh page))))) = []"
proof -
  have h1: "peerConnection fresh = None" by (simp add: fresh_fields)
  have h2: "\<not> answer_applies signaling_down"
    by (simp add: answer_applies_def signaling_down_def)
  show ?thesis
    using release_follows_recorded_connection
      [of signaling_down fresh page _ _ _ "Inr ()", OF run_projections run_projections] h1 h2
    by simp
qed

end
